theory Spec2Isabelle
  imports Complex_Main "HOL-Library.Word" "HOL-Library.Log_Nat"
begin

unbundle bit_operations_syntax

section \<open>Data model of \<open>BufferLayer.cpp\<close>\<close>

text \<open>
  The embedding follows \<open>services/surfaceflinger/BufferLayer.cpp\<close>. A C++ object is a
  record, a nullable pointer an \<open>option\<close>, a mutating member function a function from
  the state to the new state, a pure virtual member function a field of the record
  \<open>hooks\<close> (the vtable), and \<open>uint64_t\<close>, \<open>uint32_t\<close> and \<open>int32_t\<close> are words.
\<close>

type_synonym nsecs_t = int
type_synonym layer_id = nat

text \<open>\<open>status_t\<close>: the code only tests \<open>err != NO_ERROR\<close>.\<close>

datatype status_t = NO_ERROR | BAD_VALUE | OTHER_ERROR int

text \<open>
  The transaction flag bits (\<open>eTransactionNeeded\<close>, \<open>eTraversalNeeded\<close>, ...) and the
  layer state flag bits (\<open>layer_state_t::eLayerOpaque\<close>, ...) are enums used as bit masks;
  a mask is the set of its bits, \<open>fetch_or\<close> is \<open>insert\<close>, and \<open>flags & bit\<close> is membership.
\<close>

datatype transaction_flag = eTransactionNeeded | eTraversalNeeded | eDisplayTransactionNeeded

datatype layer_flag = eLayerHidden | eLayerOpaque | eLayerSecure

text \<open>
  \<open>Layer::SyncPoint\<close> is declared in \<open>Layer.h\<close>; its accessors only read and set the
  fields. The requester is a \<open>wp<Layer>\<close>: the identity of a layer, resolved against the
  live layers when promoted.
\<close>

record SyncPoint =
  mFrameNumber :: "64 word"
  mFrameIsAvailable :: bool
  mTransactionIsApplied :: bool
  mRequestedSyncLayer :: layer_id

definition getFrameNumber_sp :: "SyncPoint \<Rightarrow> 64 word" where
  "getFrameNumber_sp p = mFrameNumber p"

definition frameIsAvailable :: "SyncPoint \<Rightarrow> bool" where
  "frameIsAvailable p = mFrameIsAvailable p"

definition transactionIsApplied :: "SyncPoint \<Rightarrow> bool" where
  "transactionIsApplied p = mTransactionIsApplied p"

definition setFrameAvailable :: "SyncPoint \<Rightarrow> SyncPoint" where
  "setFrameAvailable p = p\<lparr>mFrameIsAvailable := True\<rparr>"

text \<open>\<open>ui::Rect\<close>: four \<open>int32_t\<close> coordinates.\<close>

record Rect =
  r_left :: "32 word"
  r_top :: "32 word"
  r_right :: "32 word"
  r_bottom :: "32 word"

text \<open>The part of a \<open>GraphicBuffer\<close> that the layer reads.\<close>

record GraphicBuffer =
  gb_id :: nat
  gb_width :: "32 word"
  gb_height :: "32 word"
  gb_usage :: "64 word"

text \<open>\<open>BufferLayer::BufferInfo\<close>, the latched state (\<open>mBufferInfo\<close>).\<close>

record BufferInfo =
  mDesiredPresentTime :: nsecs_t
  mFenceSignaled :: bool
  mTransform :: "32 word"
  mCrop :: Rect
  mScaleMode :: "32 word"
  mPixelFormat :: "32 word"
  mTransformToDisplayInverse :: bool
  mBuffer :: "GraphicBuffer option"
  mFrameLatencyNeeded :: bool

text \<open>
  What the layer does to \<open>SurfaceFlinger\<close> through \<open>mFlinger\<close>: the number of
  \<open>signalLayerUpdate()\<close> calls and the flags given to \<open>setTransactionFlags\<close>.
\<close>

record Flinger =
  layerUpdatesSignaled :: nat
  flingerTransactionFlags :: "transaction_flag set"

definition signalLayerUpdate :: "Flinger \<Rightarrow> Flinger" where
  "signalLayerUpdate f = f\<lparr>layerUpdatesSignaled := Suc (layerUpdatesSignaled f)\<rparr>"

definition setTransactionFlags :: "transaction_flag \<Rightarrow> transaction_flag set \<Rightarrow> transaction_flag set" where
  "setTransactionFlags flag flags = insert flag flags"

definition flinger_setTransactionFlags :: "transaction_flag \<Rightarrow> Flinger \<Rightarrow> Flinger" where
  "flinger_setTransactionFlags flag f =
     f\<lparr>flingerTransactionFlags := setTransactionFlags flag (flingerTransactionFlags f)\<rparr>"

text \<open>The drawing state \<open>Layer::State\<close>, as far as the layer reads it here.\<close>

record State =
  st_flags :: "layer_flag set"
  st_sidebandStream :: "nat option"
  st_activeWidth :: "32 word"
  st_activeHeight :: "32 word"

text \<open>
  The members of the layer that \<open>BufferLayer.cpp\<close> reads and writes. \<open>liveLayers\<close> maps
  the identity of each live layer to its \<open>mTransactionFlags\<close>: it is where a \<open>wp<Layer>\<close>
  is promoted. \<open>derived\<close> holds the members of the derived class.
\<close>

record 'q layer =
  mLocalSyncPoints :: "SyncPoint list"
  mCurrentFrameNumber :: "64 word"
  mRefreshPending :: bool
  mBufferInfo :: BufferInfo
  mSidebandStream :: "nat option"
  mDrawingState :: State
  mOverrideScalingMode :: "32 word"
  mNeedsFiltering :: bool
  mFlinger :: Flinger
  liveLayers :: "layer_id \<Rightarrow> transaction_flag set option"
  derived :: 'q

text \<open>
  The member functions that \<open>BufferLayer\<close> declares pure virtual and calls in this file.
  The \<open>const\<close> ones read the layer; the others return the layer they leave, and the ones
  given \<open>recomputeVisibleRegions\<close> by reference return it too.
\<close>

record 'q hooks =
  hasFrameUpdate :: "'q layer \<Rightarrow> bool"
  getSidebandStreamChanged :: "'q layer \<Rightarrow> bool"
  getAutoRefresh :: "'q layer \<Rightarrow> bool"
  getFrameNumber :: "nsecs_t \<Rightarrow> 'q layer \<Rightarrow> 64 word"
  fenceHasSignaled :: "'q layer \<Rightarrow> bool"
  framePresentTimeIsCurrent :: "nsecs_t \<Rightarrow> 'q layer \<Rightarrow> bool"
  latchSidebandStream :: "bool \<Rightarrow> 'q layer \<Rightarrow> bool \<times> bool \<times> 'q layer"
  updateTexImage :: "bool \<Rightarrow> nsecs_t \<Rightarrow> nsecs_t \<Rightarrow> 'q layer \<Rightarrow> status_t \<times> bool \<times> 'q layer"
  updateActiveBuffer :: "'q layer \<Rightarrow> status_t \<times> 'q layer"
  updateFrameNumber :: "nsecs_t \<Rightarrow> 'q layer \<Rightarrow> status_t \<times> 'q layer"
  gatherBufferInfo :: "'q layer \<Rightarrow> 'q layer"

text \<open>
  The values of the pixel format constants of the HAL headers, which the file names but
  does not define.
\<close>

record pixel_formats =
  HAL_PIXEL_FORMAT_RGBA_8888 :: "32 word"
  HAL_PIXEL_FORMAT_BGRA_8888 :: "32 word"
  HAL_PIXEL_FORMAT_RGBA_FP16 :: "32 word"
  HAL_PIXEL_FORMAT_RGBA_1010102 :: "32 word"

section \<open>Ready frames and the head frame number\<close>

definition hasReadyFrame :: "'q hooks \<Rightarrow> 'q layer \<Rightarrow> bool" where
  "hasReadyFrame ops s =
     (hasFrameUpdate ops s \<or> getSidebandStreamChanged ops s \<or> getAutoRefresh ops s)"

definition getHeadFrameNumber :: "'q hooks \<Rightarrow> nsecs_t \<Rightarrow> 'q layer \<Rightarrow> 64 word" where
  "getHeadFrameNumber ops expectedPresentTime s =
     (if hasFrameUpdate ops s then getFrameNumber ops expectedPresentTime s
      else mCurrentFrameNumber s)"

section \<open>Opacity\<close>

definition HARDWARE_IS_DEVICE_FORMAT :: "32 word \<Rightarrow> bool" where
  "HARDWARE_IS_DEVICE_FORMAT f = (0x100 \<le> f \<and> f \<le> 0x1FF)"

definition getOpacityForFormat :: "pixel_formats \<Rightarrow> 32 word \<Rightarrow> bool" where
  "getOpacityForFormat pf format =
     (if HARDWARE_IS_DEVICE_FORMAT format then True
      else if format = HAL_PIXEL_FORMAT_RGBA_8888 pf \<or> format = HAL_PIXEL_FORMAT_BGRA_8888 pf
            \<or> format = HAL_PIXEL_FORMAT_RGBA_FP16 pf \<or> format = HAL_PIXEL_FORMAT_RGBA_1010102 pf
      then False
      else True)"

definition getPixelFormat :: "'q layer \<Rightarrow> 32 word" where
  "getPixelFormat s = mPixelFormat (mBufferInfo s)"

definition isOpaque :: "pixel_formats \<Rightarrow> 'q layer \<Rightarrow> State \<Rightarrow> bool" where
  "isOpaque pf l s =
     (if mSidebandStream l = None \<and> mBuffer (mBufferInfo l) = None then False
      else (eLayerOpaque \<in> st_flags s) \<or> getOpacityForFormat pf (getPixelFormat l))"

section \<open>Sync points\<close>

text \<open>
  The loop of \<open>allTransactionsSignaled\<close> over \<open>mLocalSyncPoints\<close>, with its two local
  variables \<open>matchingFramesFound\<close> and \<open>allTransactionsApplied\<close>. It returns the list with
  the point it marked, and the two variables as the loop leaves them.
\<close>

fun allTransactionsSignaled_loop ::
  "64 word \<Rightarrow> SyncPoint list \<Rightarrow> bool \<Rightarrow> bool \<Rightarrow> SyncPoint list \<times> bool \<times> bool" where
  "allTransactionsSignaled_loop headFrameNumber [] matchingFramesFound allTransactionsApplied =
     ([], matchingFramesFound, allTransactionsApplied)"
| "allTransactionsSignaled_loop headFrameNumber (point # points) matchingFramesFound allTransactionsApplied =
     (if getFrameNumber_sp point > headFrameNumber
      then (point # points, matchingFramesFound, allTransactionsApplied)
      else if \<not> frameIsAvailable point
      then (setFrameAvailable point # points, True, False)
      else (case allTransactionsSignaled_loop headFrameNumber points True
                   (allTransactionsApplied \<and> transactionIsApplied point) of
              (points', found, applied) \<Rightarrow> (point # points', found, applied)))"

definition allTransactionsSignaled :: "'q hooks \<Rightarrow> nsecs_t \<Rightarrow> 'q layer \<Rightarrow> bool \<times> 'q layer" where
  "allTransactionsSignaled ops expectedPresentTime s =
     (let headFrameNumber = getHeadFrameNumber ops expectedPresentTime s in
      case allTransactionsSignaled_loop headFrameNumber (mLocalSyncPoints s) False True of
        (points', matchingFramesFound, allTransactionsApplied) \<Rightarrow>
          (\<not> matchingFramesFound \<or> allTransactionsApplied, s\<lparr>mLocalSyncPoints := points'\<rparr>))"

text \<open>
  The loop of \<open>notifyAvailableFrames\<close>: each point that is reached by the head frame is
  marked, and its requester, when the weak pointer still promotes, gets
  \<open>eTransactionNeeded\<close>.
\<close>

definition layer_setTransactionFlags ::
  "transaction_flag \<Rightarrow> layer_id \<Rightarrow> (layer_id \<Rightarrow> transaction_flag set option) \<Rightarrow>
   (layer_id \<Rightarrow> transaction_flag set option)" where
  "layer_setTransactionFlags flag requester layers =
     (case layers requester of
        None \<Rightarrow> layers
      | Some flags \<Rightarrow> layers(requester \<mapsto> setTransactionFlags flag flags))"

fun notifyAvailableFrames_loop ::
  "64 word \<Rightarrow> bool \<Rightarrow> bool \<Rightarrow> SyncPoint list \<Rightarrow> (layer_id \<Rightarrow> transaction_flag set option) \<Rightarrow>
   SyncPoint list \<times> (layer_id \<Rightarrow> transaction_flag set option)" where
  "notifyAvailableFrames_loop headFrameNumber headFenceSignaled presentTimeIsCurrent [] layers =
     ([], layers)"
| "notifyAvailableFrames_loop headFrameNumber headFenceSignaled presentTimeIsCurrent (point # points) layers =
     (if headFrameNumber \<ge> getFrameNumber_sp point \<and> headFenceSignaled \<and> presentTimeIsCurrent
      then (case notifyAvailableFrames_loop headFrameNumber headFenceSignaled presentTimeIsCurrent points
                   (layer_setTransactionFlags eTransactionNeeded (mRequestedSyncLayer point) layers) of
              (points', layers') \<Rightarrow> (setFrameAvailable point # points', layers'))
      else (case notifyAvailableFrames_loop headFrameNumber headFenceSignaled presentTimeIsCurrent points
                   layers of
              (points', layers') \<Rightarrow> (point # points', layers')))"

definition notifyAvailableFrames :: "'q hooks \<Rightarrow> nsecs_t \<Rightarrow> 'q layer \<Rightarrow> 'q layer" where
  "notifyAvailableFrames ops expectedPresentTime s =
     (let headFrameNumber = getHeadFrameNumber ops expectedPresentTime s;
          headFenceSignaled = fenceHasSignaled ops s;
          presentTimeIsCurrent = framePresentTimeIsCurrent ops expectedPresentTime s
      in case notifyAvailableFrames_loop headFrameNumber headFenceSignaled presentTimeIsCurrent
                (mLocalSyncPoints s) (liveLayers s) of
           (points', layers') \<Rightarrow> s\<lparr>mLocalSyncPoints := points', liveLayers := layers'\<rparr>)"

section \<open>Latching a buffer\<close>

text \<open>
  \<open>mBufferInfo.mBuffer->getWidth()\<close> dereferences the new buffer without a test; where
  the pointer is null the call has no result.
\<close>

datatype fault = NullDereference

text \<open>
  Lines 405 to 429 of \<open>latchBuffer\<close>: the value of \<open>recomputeVisibleRegions\<close> after the
  comparisons of the new \<open>mBufferInfo\<close> and opacity with the ones captured before.
\<close>

definition latchBuffer_recompute ::
  "bool \<Rightarrow> BufferInfo \<Rightarrow> bool \<Rightarrow> BufferInfo \<Rightarrow> bool \<Rightarrow> fault + bool" where
  "latchBuffer_recompute recomputeVisibleRegions oldBufferInfo oldOpacity newBufferInfo newOpacity =
     (let r1 = (if mBuffer oldBufferInfo = None then True else recomputeVisibleRegions);
          r2 = (if mCrop newBufferInfo \<noteq> mCrop oldBufferInfo
                   \<or> mTransform newBufferInfo \<noteq> mTransform oldBufferInfo
                   \<or> mScaleMode newBufferInfo \<noteq> mScaleMode oldBufferInfo
                   \<or> mTransformToDisplayInverse newBufferInfo \<noteq> mTransformToDisplayInverse oldBufferInfo
                then True else r1)
      in case mBuffer oldBufferInfo of
           None \<Rightarrow> Inr (if oldOpacity \<noteq> newOpacity then True else r2)
         | Some oldBuffer \<Rightarrow>
             (case mBuffer newBufferInfo of
                None \<Rightarrow> Inl NullDereference
              | Some buffer \<Rightarrow>
                  (let bufWidth = gb_width buffer; bufHeight = gb_height buffer;
                       r3 = (if bufWidth \<noteq> gb_width oldBuffer \<or> bufHeight \<noteq> gb_height oldBuffer
                             then True else r2)
                   in Inr (if oldOpacity \<noteq> newOpacity then True else r3))))"

text \<open>Lines 431 to 453: the loop that erases sync points from \<open>mLocalSyncPoints\<close>.\<close>

fun latchBuffer_dropSyncPoints :: "64 word \<Rightarrow> SyncPoint list \<Rightarrow> SyncPoint list" where
  "latchBuffer_dropSyncPoints currentFrameNumber [] = []"
| "latchBuffer_dropSyncPoints currentFrameNumber (point # points) =
     (if \<not> frameIsAvailable point \<or> \<not> transactionIsApplied point
      then point # latchBuffer_dropSyncPoints currentFrameNumber points
      else if getFrameNumber_sp point \<le> currentFrameNumber
      then latchBuffer_dropSyncPoints currentFrameNumber points
      else point # latchBuffer_dropSyncPoints currentFrameNumber points)"

text \<open>
  \<open>latchBuffer\<close> returns its \<open>bool\<close>, the value it leaves in \<open>recomputeVisibleRegions\<close>,
  and the layer.
\<close>

definition latchBuffer ::
  "pixel_formats \<Rightarrow> 'q hooks \<Rightarrow> bool \<Rightarrow> nsecs_t \<Rightarrow> nsecs_t \<Rightarrow> 'q layer \<Rightarrow>
   fault + (bool \<times> bool \<times> 'q layer)" where
  "latchBuffer pf ops recomputeVisibleRegions latchTime expectedPresentTime s0 =
     (case latchSidebandStream ops recomputeVisibleRegions s0 of
        (refreshRequired, recompute1, s1) \<Rightarrow>
          (if refreshRequired then Inr (refreshRequired, recompute1, s1)
           else if \<not> hasReadyFrame ops s1 then Inr (False, recompute1, s1)
           else if mRefreshPending s1 then Inr (False, recompute1, s1)
           else if \<not> fenceHasSignaled ops s1
           then Inr (False, recompute1, s1\<lparr>mFlinger := signalLayerUpdate (mFlinger s1)\<rparr>)
           else
            (let oldOpacity = isOpaque pf s1 (mDrawingState s1);
                 oldBufferInfo = mBufferInfo s1
             in
             (case allTransactionsSignaled ops expectedPresentTime s1 of
                (signaled, s2) \<Rightarrow>
                  (if \<not> signaled
                   then Inr (False, recompute1,
                             s2\<lparr>mFlinger :=
                                  flinger_setTransactionFlags eTraversalNeeded (mFlinger s2)\<rparr>)
                   else
                    (case updateTexImage ops recompute1 latchTime expectedPresentTime s2 of
                       (err, recompute2, s3) \<Rightarrow>
                         (if err \<noteq> NO_ERROR then Inr (False, recompute2, s3)
                          else
                           (case updateActiveBuffer ops s3 of
                              (err, s4) \<Rightarrow>
                                (if err \<noteq> NO_ERROR then Inr (False, recompute2, s4)
                                 else
                                  (case updateFrameNumber ops latchTime s4 of
                                     (err, s5) \<Rightarrow>
                                       (if err \<noteq> NO_ERROR then Inr (False, recompute2, s5)
                                        else
                                         (let s6 = gatherBufferInfo ops s5;
                                              s7 = s6\<lparr>mRefreshPending := True,
                                                      mBufferInfo :=
                                                        (mBufferInfo s6)\<lparr>mFrameLatencyNeeded := True\<rparr>\<rparr>
                                          in
                                          (case latchBuffer_recompute recompute2 oldBufferInfo oldOpacity
                                                  (mBufferInfo s7) (isOpaque pf s7 (mDrawingState s7)) of
                                             Inl f \<Rightarrow> Inl f
                                           | Inr recompute3 \<Rightarrow>
                                               Inr (True, recompute3,
                                                    s7\<lparr>mLocalSyncPoints :=
                                                         latchBuffer_dropSyncPoints (mCurrentFrameNumber s7)
                                                           (mLocalSyncPoints s7)\<rparr>))))))))))))))"

text \<open>
  The layer as \<open>latchBuffer\<close> has it after \<open>gatherBufferInfo\<close> and the two assignments of
  lines 403 and 404, given the layer \<open>updateFrameNumber\<close> left.
\<close>

definition latched_state :: "'q hooks \<Rightarrow> 'q layer \<Rightarrow> 'q layer" where
  "latched_state ops s5 =
     (gatherBufferInfo ops s5)\<lparr>mRefreshPending := True,
        mBufferInfo := (mBufferInfo (gatherBufferInfo ops s5))\<lparr>mFrameLatencyNeeded := True\<rparr>\<rparr>"

text \<open>
  Lines 358 to 455 of \<open>latchBuffer\<close>: what it does once the sideband step has returned
  false and \<open>hasReadyFrame()\<close> has held, from the \<open>recomputeVisibleRegions\<close> and the layer
  the sideband step left.
\<close>

definition latchBuffer_afterReadyCheck ::
  "pixel_formats \<Rightarrow> 'q hooks \<Rightarrow> bool \<Rightarrow> nsecs_t \<Rightarrow> nsecs_t \<Rightarrow> 'q layer \<Rightarrow>
   fault + (bool \<times> bool \<times> 'q layer)" where
  "latchBuffer_afterReadyCheck pf ops recompute1 latchTime expectedPresentTime s1 =
     (if mRefreshPending s1 then Inr (False, recompute1, s1)
      else if \<not> fenceHasSignaled ops s1
      then Inr (False, recompute1, s1\<lparr>mFlinger := signalLayerUpdate (mFlinger s1)\<rparr>)
      else
       (let oldOpacity = isOpaque pf s1 (mDrawingState s1);
            oldBufferInfo = mBufferInfo s1
        in
        (case allTransactionsSignaled ops expectedPresentTime s1 of
           (signaled, s2) \<Rightarrow>
             (if \<not> signaled
              then Inr (False, recompute1,
                        s2\<lparr>mFlinger :=
                             flinger_setTransactionFlags eTraversalNeeded (mFlinger s2)\<rparr>)
              else
               (case updateTexImage ops recompute1 latchTime expectedPresentTime s2 of
                  (err, recompute2, s3) \<Rightarrow>
                    (if err \<noteq> NO_ERROR then Inr (False, recompute2, s3)
                     else
                      (case updateActiveBuffer ops s3 of
                         (err, s4) \<Rightarrow>
                           (if err \<noteq> NO_ERROR then Inr (False, recompute2, s4)
                            else
                             (case updateFrameNumber ops latchTime s4 of
                                (err, s5) \<Rightarrow>
                                  (if err \<noteq> NO_ERROR then Inr (False, recompute2, s5)
                                   else
                                    (let s6 = gatherBufferInfo ops s5;
                                         s7 = s6\<lparr>mRefreshPending := True,
                                                 mBufferInfo :=
                                                   (mBufferInfo s6)\<lparr>mFrameLatencyNeeded := True\<rparr>\<rparr>
                                     in
                                     (case latchBuffer_recompute recompute2 oldBufferInfo oldOpacity
                                             (mBufferInfo s7) (isOpaque pf s7 (mDrawingState s7)) of
                                        Inl f \<Rightarrow> Inl f
                                      | Inr recompute3 \<Rightarrow>
                                          Inr (True, recompute3,
                                               s7\<lparr>mLocalSyncPoints :=
                                                    latchBuffer_dropSyncPoints (mCurrentFrameNumber s7)
                                                      (mLocalSyncPoints s7)\<rparr>)))))))))))))"

text \<open>
  \<open>onPreComposition\<close> (the frame event history it records is not part of the state here).
\<close>

definition onPreComposition :: "'q hooks \<Rightarrow> nsecs_t \<Rightarrow> 'q layer \<Rightarrow> bool \<times> 'q layer" where
  "onPreComposition ops refreshStartTime s =
     (let s' = s\<lparr>mRefreshPending := False\<rparr> in (hasReadyFrame ops s', s'))"

text \<open>
  \<open>latchUnsignaledBuffers\<close>, with its function-local statics \<open>propertyLoaded\<close> and
  \<open>latch\<close>; \<open>property_get\<close> (called with the key and the default value) and \<open>atoi\<close> are
  library functions and parameters here.
\<close>

record latchUnsignaledBuffers_statics =
  propertyLoaded :: bool
  latch :: bool

definition latchUnsignaledBuffers ::
  "(string \<Rightarrow> string \<Rightarrow> string) \<Rightarrow> (string \<Rightarrow> int) \<Rightarrow> latchUnsignaledBuffers_statics \<Rightarrow>
   bool \<times> latchUnsignaledBuffers_statics" where
  "latchUnsignaledBuffers property_get atoi statics =
     (if \<not> propertyLoaded statics
      then (let v = property_get ''debug.sf.latch_unsignaled'' ''0'';
                statics' = statics\<lparr>latch := (atoi v \<noteq> 0), propertyLoaded := True\<rparr>
            in (latch statics', statics'))
      else (latch statics, statics))"

text \<open>
  That the four hooks \<open>latchBuffer\<close> calls to acquire a buffer leave \<open>mLocalSyncPoints\<close>
  alone: the list belongs to the base class and is guarded by \<open>mLocalSyncPointMutex\<close>.
\<close>

definition hooks_keep_sync_points :: "'q hooks \<Rightarrow> bool" where
  "hooks_keep_sync_points ops =
     ((\<forall>r t e s. mLocalSyncPoints (snd (snd (updateTexImage ops r t e s))) = mLocalSyncPoints s)
      \<and> (\<forall>s. mLocalSyncPoints (snd (updateActiveBuffer ops s)) = mLocalSyncPoints s)
      \<and> (\<forall>t s. mLocalSyncPoints (snd (updateFrameNumber ops t s)) = mLocalSyncPoints s)
      \<and> (\<forall>s. mLocalSyncPoints (gatherBufferInfo ops s) = mLocalSyncPoints s))"

section \<open>Geometry\<close>

text \<open>
  The values of the window and transform constants, of the protected usage bit and of the
  primary display's orientation transform (a static member of \<open>DisplayDevice\<close>), which
  the file names but does not define.
\<close>

record platform =
  NATIVE_WINDOW_SCALING_MODE_FREEZE :: "32 word"
  NATIVE_WINDOW_TRANSFORM_ROT_90 :: "32 word"
  NATIVE_WINDOW_TRANSFORM_FLIP_H :: "32 word"
  NATIVE_WINDOW_TRANSFORM_FLIP_V :: "32 word"
  Transform_ROT_90 :: "32 word"
  GRALLOC_USAGE_PROTECTED :: "64 word"
  primaryDisplayOrientationTransform :: "32 word"

text \<open>
  \<open>float\<close> is the IEEE 754 binary32 format. A finite value is kept as the rational it
  denotes, and every conversion and operation rounds its exact result as the format
  does: to the nearest value with a significand of 24 bits (exponent at least -149, so
  that subnormal values are covered), ties to the even significand, and to an infinity
  from \<open>2^128\<close> on. The infinities and NaN are values of their own; the sign of zero is
  not part of the model.
\<close>

datatype float = Fin rat | PInf | NInf | NaN

definition round_half_even :: "rat \<Rightarrow> int" where
  "round_half_even q =
     (let f = \<lfloor>q\<rfloor>; d = q - of_int f
      in if d < 1 / 2 then f else if 1 / 2 < d then f + 1 else if even f then f else f + 1)"

text \<open>For \<open>x\<close> other than 0, the exponent \<open>e\<close> with \<open>2^e \<le> |x| < 2^(e+1)\<close>.\<close>

definition float_exponent :: "rat \<Rightarrow> int" where
  "float_exponent x =
     (if 1 \<le> \<bar>x\<bar> then bitlen \<lfloor>\<bar>x\<bar>\<rfloor> - 1 else - bitlen (\<lceil>1 / \<bar>x\<bar>\<rceil> - 1))"

definition round_float :: "rat \<Rightarrow> float" where
  "round_float x =
     (if x = 0 then Fin 0
      else (let e = max (float_exponent x - 23) (- 149);
                v = of_int (round_half_even (x / 2 powi e)) * 2 powi e
            in if 2 ^ 128 \<le> \<bar>v\<bar> then (if 0 < x then PInf else NInf) else Fin v))"

definition float_of_int32 :: "32 word \<Rightarrow> float" where
  "float_of_int32 w = round_float (of_int (sint w))"

fun fsub :: "float \<Rightarrow> float \<Rightarrow> float" where
  "fsub (Fin a) (Fin b) = round_float (a - b)"
| "fsub NaN y = NaN"
| "fsub x NaN = NaN"
| "fsub PInf PInf = NaN"
| "fsub NInf NInf = NaN"
| "fsub PInf y = PInf"
| "fsub NInf y = NInf"
| "fsub (Fin a) PInf = NInf"
| "fsub (Fin a) NInf = PInf"

fun fdiv :: "float \<Rightarrow> float \<Rightarrow> float" where
  "fdiv (Fin a) (Fin b) =
     (if b = 0 then (if a = 0 then NaN else if 0 < a then PInf else NInf)
      else round_float (a / b))"
| "fdiv NaN y = NaN"
| "fdiv x NaN = NaN"
| "fdiv (Fin a) y = Fin 0"
| "fdiv x (Fin b) = (if (x = PInf) = (0 \<le> b) then PInf else NInf)"
| "fdiv x y = NaN"

text \<open>The operator \<open>!=\<close> on \<open>float\<close>: a NaN differs from everything.\<close>

definition fneq :: "float \<Rightarrow> float \<Rightarrow> bool" where
  "fneq x y = (x = NaN \<or> y = NaN \<or> x \<noteq> y)"

definition isFinite :: "float \<Rightarrow> bool" where
  "isFinite x = (case x of Fin a \<Rightarrow> True | PInf \<Rightarrow> False | NInf \<Rightarrow> False | NaN \<Rightarrow> False)"

text \<open>
  \<open>ui::Rect\<close> and \<open>ui::FloatRect\<close> are declared in the \<open>ui\<close> library: the width is
  \<open>right - left\<close>, the height \<open>bottom - top\<close>, a rectangle is valid when neither is
  negative, \<open>Rect(w, h)\<close> is the rectangle at the origin with the sizes clamped to
  \<open>INT32_MAX\<close>, and \<open>INVALID_RECT\<close> is \<open>[0, 0, -1, -1]\<close>, as the comment at line 229 has it.
\<close>

definition Rect_getWidth :: "Rect \<Rightarrow> 32 word" where
  "Rect_getWidth r = r_right r - r_left r"

definition Rect_getHeight :: "Rect \<Rightarrow> 32 word" where
  "Rect_getHeight r = r_bottom r - r_top r"

definition Rect_isValid :: "Rect \<Rightarrow> bool" where
  "Rect_isValid r = (0 \<le> sint (Rect_getWidth r) \<and> 0 \<le> sint (Rect_getHeight r))"

definition Rect_of_size :: "32 word \<Rightarrow> 32 word \<Rightarrow> Rect" where
  "Rect_of_size w h =
     \<lparr>r_left = 0, r_top = 0,
      r_right = (if w > 0x7FFFFFFF then 0x7FFFFFFF else w),
      r_bottom = (if h > 0x7FFFFFFF then 0x7FFFFFFF else h)\<rparr>"

definition INVALID_RECT :: Rect where
  "INVALID_RECT = \<lparr>r_left = 0, r_top = 0, r_right = - 1, r_bottom = - 1\<rparr>"

record FloatRect =
  fr_left :: float
  fr_top :: float
  fr_right :: float
  fr_bottom :: float

definition FloatRect_getWidth :: "FloatRect \<Rightarrow> float" where
  "FloatRect_getWidth r = fsub (fr_right r) (fr_left r)"

definition FloatRect_getHeight :: "FloatRect \<Rightarrow> float" where
  "FloatRect_getHeight r = fsub (fr_bottom r) (fr_top r)"

text \<open>
  \<open>mat4\<close> values are kept as the expressions that build them: the arithmetic of the
  \<open>math\<close> library is not unfolded. \<open>ComputeTransformMatrix\<close> stands for the matrix
  \<open>GLConsumer::computeTransformMatrix\<close> writes.
\<close>

datatype mat4 =
    Identity
  | Literal "int list"
  | ComputeTransformMatrix "GraphicBuffer option" Rect "32 word" bool
  | Translate float float
  | Scale float float
  | Mul mat4 mat4
  | Inverse mat4

definition inverseOrientation :: "platform \<Rightarrow> 32 word \<Rightarrow> mat4" where
  "inverseOrientation pl transform =
     (let flipH = Literal [- 1, 0, 0, 0, 0, 1, 0, 0, 0, 0, 1, 0, 1, 0, 0, 1];
          flipV = Literal [1, 0, 0, 0, 0, - 1, 0, 0, 0, 0, 1, 0, 0, 1, 0, 1];
          rot90 = Literal [0, 1, 0, 0, - 1, 0, 0, 0, 0, 0, 1, 0, 1, 0, 0, 1];
          tr0 = Identity;
          tr1 = (if transform AND NATIVE_WINDOW_TRANSFORM_ROT_90 pl \<noteq> 0 then Mul tr0 rot90 else tr0);
          tr2 = (if transform AND NATIVE_WINDOW_TRANSFORM_FLIP_H pl \<noteq> 0 then Mul tr1 flipH else tr1);
          tr3 = (if transform AND NATIVE_WINDOW_TRANSFORM_FLIP_V pl \<noteq> 0 then Mul tr2 flipV else tr2)
      in Inverse tr3)"

definition getEffectiveScalingMode :: "'q layer \<Rightarrow> 32 word" where
  "getEffectiveScalingMode l =
     (if 0 \<le> sint (mOverrideScalingMode l) then mOverrideScalingMode l
      else mScaleMode (mBufferInfo l))"

definition isFixedSize :: "platform \<Rightarrow> 'q layer \<Rightarrow> bool" where
  "isFixedSize pl l = (getEffectiveScalingMode l \<noteq> NATIVE_WINDOW_SCALING_MODE_FREEZE pl)"

definition isProtected :: "platform \<Rightarrow> 'q layer \<Rightarrow> bool" where
  "isProtected pl l =
     (case mBuffer (mBufferInfo l) of
        None \<Rightarrow> False
      | Some buffer \<Rightarrow> gb_usage buffer AND GRALLOC_USAGE_PROTECTED pl \<noteq> 0)"

definition getTransformToDisplayInverse :: "'q layer \<Rightarrow> bool" where
  "getTransformToDisplayInverse l = mTransformToDisplayInverse (mBufferInfo l)"

definition getBufferSize :: "platform \<Rightarrow> State \<Rightarrow> 'q layer \<Rightarrow> Rect" where
  "getBufferSize pl s l =
     (if st_sidebandStream s \<noteq> None
         \<or> getEffectiveScalingMode l \<noteq> NATIVE_WINDOW_SCALING_MODE_FREEZE pl
      then Rect_of_size (st_activeWidth s) (st_activeHeight s)
      else case mBuffer (mBufferInfo l) of
             None \<Rightarrow> INVALID_RECT
           | Some buffer \<Rightarrow>
               (let size0 = (gb_width buffer, gb_height buffer);
                    size1 = (if mTransform (mBufferInfo l) AND Transform_ROT_90 pl \<noteq> 0
                             then (snd size0, fst size0) else size0);
                    size2 = (if getTransformToDisplayInverse l
                                \<and> primaryDisplayOrientationTransform pl AND Transform_ROT_90 pl \<noteq> 0
                             then (snd size1, fst size1) else size1)
                in Rect_of_size (fst size2) (snd size2)))"

definition getDrawingTransformMatrix :: "bool \<Rightarrow> 'q layer \<Rightarrow> mat4" where
  "getDrawingTransformMatrix filteringEnabled l =
     ComputeTransformMatrix (mBuffer (mBufferInfo l)) (mCrop (mBufferInfo l))
       (mTransform (mBufferInfo l)) filteringEnabled"

text \<open>
  Lines 225 to 246 of \<open>prepareClientComposition\<close>: the matrix \<open>tr\<close> that maps the buffer
  onto the window \<open>win\<close>, given the rectangle \<open>getBufferSize(s)\<close> returned.
\<close>

definition prepareClientComposition_tr :: "Rect \<Rightarrow> Rect \<Rightarrow> mat4" where
  "prepareClientComposition_tr win bufferSize =
     (let bufferWidth0 = float_of_int32 (Rect_getWidth bufferSize);
          bufferHeight0 = float_of_int32 (Rect_getHeight bufferSize);
          bufferWidth = (if \<not> Rect_isValid bufferSize
                         then fsub (float_of_int32 (r_right win)) (float_of_int32 (r_left win))
                         else bufferWidth0);
          bufferHeight = (if \<not> Rect_isValid bufferSize
                          then fsub (float_of_int32 (r_bottom win)) (float_of_int32 (r_top win))
                          else bufferHeight0);
          scaleHeight = fdiv (fsub (float_of_int32 (r_bottom win)) (float_of_int32 (r_top win)))
                          bufferHeight;
          scaleWidth = fdiv (fsub (float_of_int32 (r_right win)) (float_of_int32 (r_left win)))
                         bufferWidth;
          translateY = fdiv (float_of_int32 (r_top win)) bufferHeight;
          translateX = fdiv (float_of_int32 (r_left win)) bufferWidth
      in Mul (Mul (Mul (Mul (Translate (Fin (1 / 2)) (Fin (1 / 2))) (Scale (Fin 1) (Fin (- 1))))
                       (Translate (Fin (- (1 / 2))) (Fin (- (1 / 2)))))
                  (Translate translateX translateY))
             (Scale scaleWidth scaleHeight))"

text \<open>
  Lines 193 to 223 of \<open>prepareClientComposition\<close>: the texture matrix for the filtering
  mode, times the inverse of the primary display's orientation and of the drawing
  parent's when the buffer asks for the display's inverse transform.
\<close>

definition prepareClientComposition_textureMatrix ::
  "platform \<Rightarrow> 32 word option \<Rightarrow> bool \<Rightarrow> 'q layer \<Rightarrow> mat4" where
  "prepareClientComposition_textureMatrix pl parentOrientation useFiltering l =
     (let textureMatrix = getDrawingTransformMatrix useFiltering l
      in if getTransformToDisplayInverse l
         then
          (let transform = primaryDisplayOrientationTransform pl;
               tr0 = inverseOrientation pl transform;
               tr1 = (case parentOrientation of
                        None \<Rightarrow> tr0
                      | Some orientation \<Rightarrow> Mul tr0 (inverseOrientation pl orientation))
           in Mul textureMatrix tr1)
         else textureMatrix)"

text \<open>
  The five factors of \<open>tr\<close> are finite: no infinity and no NaN came out of the divisions.
\<close>

fun finiteFactors :: "mat4 \<Rightarrow> bool" where
  "finiteFactors (Translate x y) = (isFinite x \<and> isFinite y)"
| "finiteFactors (Scale x y) = (isFinite x \<and> isFinite y)"
| "finiteFactors (Mul a b) = (finiteFactors a \<and> finiteFactors b)"
| "finiteFactors (Inverse a) = finiteFactors a"
| "finiteFactors m = True"

text \<open>
  The settings of the render engine, as far as they bear on the projection: the buffer,
  its opacity, the filtering flag, the texture transform and the alpha. A region is the
  set of its points.
\<close>

type_synonym region = "(int \<times> int) set"

record LayerSettings =
  ls_buffer :: "GraphicBuffer option"
  ls_isOpaque :: bool
  ls_useTextureFiltering :: bool
  ls_textureTransform :: mat4
  ls_alpha :: float

record TargetSettings =
  ts_clip :: region
  ts_needsFiltering :: bool
  ts_isSecure :: bool
  ts_supportsProtectedContent :: bool
  ts_clearRegion :: region

text \<open>
  What \<open>prepareClientComposition\<close> takes from the base class and from other objects:
  the result of \<open>Layer::prepareClientComposition\<close>, the region \<open>under\<close> gathered from the
  layers below, \<open>isSecure()\<close>, the window \<open>Rect{getBounds()}\<close>, the body that the virtual
  call \<open>getBufferSize(s)\<close> reaches, and the orientation of the drawing parent's transform
  when the parent is alive.
\<close>

record 'q composition =
  layerPrepareClientComposition :: "LayerSettings option"
  under :: region
  isSecure :: bool
  getBounds :: Rect
  getBufferSize_virtual :: "State \<Rightarrow> 'q layer \<Rightarrow> Rect"
  drawingParentOrientation :: "32 word option"

definition prepareClientComposition ::
  "pixel_formats \<Rightarrow> platform \<Rightarrow> 'q composition \<Rightarrow> TargetSettings \<Rightarrow> 'q layer \<Rightarrow>
   LayerSettings option \<times> TargetSettings" where
  "prepareClientComposition pf pl env targetSettings l =
     (case layerPrepareClientComposition env of
        None \<Rightarrow> (None, targetSettings)
      | Some result \<Rightarrow>
          (if mBuffer (mBufferInfo l) = None
           then
            (let holes = ts_clip targetSettings - under env
             in (None,
                 if holes \<noteq> {}
                 then targetSettings\<lparr>ts_clearRegion := ts_clearRegion targetSettings \<union> holes\<rparr>
                 else targetSettings))
           else
            (let blackOutLayer =
                   ((isProtected pl l \<and> \<not> ts_supportsProtectedContent targetSettings)
                    \<or> (isSecure env \<and> \<not> ts_isSecure targetSettings));
                 s = mDrawingState l
             in
             (if \<not> blackOutLayer
              then
               (let useFiltering =
                      (ts_needsFiltering targetSettings \<or> mNeedsFiltering l \<or> isFixedSize pl l);
                    textureMatrix =
                      prepareClientComposition_textureMatrix pl (drawingParentOrientation env)
                        useFiltering l;
                    win = getBounds env;
                    tr = prepareClientComposition_tr win (getBufferSize_virtual env s l)
                in (Some (result\<lparr>ls_buffer := mBuffer (mBufferInfo l),
                                  ls_isOpaque := isOpaque pf l s,
                                  ls_useTextureFiltering := useFiltering,
                                  ls_textureTransform := Mul textureMatrix tr\<rparr>),
                    targetSettings))
              else (Some (result\<lparr>ls_buffer := None, ls_alpha := Fin 1\<rparr>), targetSettings)))))"

section \<open>Filtering\<close>

text \<open>
  The state of the output layer that \<open>needsFiltering\<close> reads; \<open>findOutputLayerForDisplay\<close>
  is a member of the base class and is a parameter here, with the display device as its
  identity.
\<close>

record OutputLayerCompositionState =
  displayFrame :: Rect
  sourceCrop :: FloatRect

definition needsFiltering ::
  "(nat \<Rightarrow> 'q layer \<Rightarrow> OutputLayerCompositionState option) \<Rightarrow> nat option \<Rightarrow> 'q layer \<Rightarrow> bool" where
  "needsFiltering findOutputLayerForDisplay displayDevice l =
     (case displayDevice of
        None \<Rightarrow> False
      | Some device \<Rightarrow>
          (case findOutputLayerForDisplay device l of
             None \<Rightarrow> False
           | Some compositionState \<Rightarrow>
               (let displayFrame = displayFrame compositionState;
                    sourceCrop = sourceCrop compositionState
                in fneq (FloatRect_getHeight sourceCrop) (float_of_int32 (Rect_getHeight displayFrame))
                   \<or> fneq (FloatRect_getWidth sourceCrop) (float_of_int32 (Rect_getWidth displayFrame)))))"

section \<open>The producer side\<close>

text \<open>
  The bodies of the pure virtual member functions are in the derived classes, whose
  sources are not part of \<open>BufferLayer.cpp\<close>. The definitions of this section give them
  as the specification describes the producer and queue collaborator.
\<close>

text \<open>
  Modelled from the spec: the \<open>BufferFrame\<close> of the data model (the derived classes' queue
  item is missing): frame number, pixel resource, acquire fence (as the answer of its
  non-blocking poll), crop rectangle, transform bit mask, scaling mode, desired present
  time, and the request for the display orientation correction.
\<close>

record BufferFrame =
  frameNumber :: "64 word"
  pixelResource :: GraphicBuffer
  pixelResourceFormat :: "32 word"
  acquireFenceSignaled :: bool
  cropRect :: Rect
  transformBitmask :: "32 word"
  scalingMode :: "32 word"
  desiredPresentTime :: nsecs_t
  orientationCorrection :: bool

text \<open>
  Modelled from the spec: the state of the producer and queue collaborator (the members
  of the derived classes are missing): the frames enqueued and not yet acquired, oldest
  first, the frame acquired last, the flags set by producer-side events, and the explicit
  override policy for unsignaled fences (the answer of \<open>latchUnsignaledBuffers\<close>).
\<close>

record producer =
  pendingFrames :: "BufferFrame list"
  acquiredFrame :: "BufferFrame option"
  sidebandStreamChanged :: bool
  autoRefresh :: bool
  latchUnsignaled :: bool

text \<open>
  Modelled from the spec: \<open>hasPendingFrame()\<close> (the body of \<open>hasFrameUpdate\<close> is missing).
\<close>

definition producer_hasFrameUpdate :: "producer layer \<Rightarrow> bool" where
  "producer_hasFrameUpdate s = (pendingFrames (derived s) \<noteq> [])"

text \<open>
  Modelled from the spec: the producer's next-available frame number (the body of
  \<open>getFrameNumber\<close> is missing).
\<close>

definition producer_getFrameNumber :: "nsecs_t \<Rightarrow> producer layer \<Rightarrow> 64 word" where
  "producer_getFrameNumber expectedPresentTime s =
     (case pendingFrames (derived s) of
        [] \<Rightarrow> mCurrentFrameNumber s
      | f # fs \<Rightarrow> frameNumber f)"

text \<open>
  Modelled from the spec: the non-blocking poll of the head frame's acquire fence, which
  an explicit override policy bypasses (the body of \<open>fenceHasSignaled\<close> is missing).
\<close>

definition producer_fenceHasSignaled :: "producer layer \<Rightarrow> bool" where
  "producer_fenceHasSignaled s =
     (if latchUnsignaled (derived s) then True
      else case pendingFrames (derived s) of
             [] \<Rightarrow> True
           | f # fs \<Rightarrow> acquireFenceSignaled f)"

text \<open>
  Modelled from the spec: whether the head frame's desired present time has come (the
  body of \<open>framePresentTimeIsCurrent\<close> is missing).
\<close>

definition producer_framePresentTimeIsCurrent :: "nsecs_t \<Rightarrow> producer layer \<Rightarrow> bool" where
  "producer_framePresentTimeIsCurrent expectedPresentTime s =
     (case pendingFrames (derived s) of
        [] \<Rightarrow> True
      | f # fs \<Rightarrow> desiredPresentTime f \<le> expectedPresentTime)"

text \<open>
  Modelled from the spec: step 1 of the latch policy, the sideband mode handled
  distinctly without touching the buffer path (the body of \<open>latchSidebandStream\<close> is
  missing).
\<close>

definition producer_latchSidebandStream ::
  "bool \<Rightarrow> producer layer \<Rightarrow> bool \<times> bool \<times> producer layer" where
  "producer_latchSidebandStream recomputeVisibleRegions s =
     (if sidebandStreamChanged (derived s)
      then (True, True, s\<lparr>derived := (derived s)\<lparr>sidebandStreamChanged := False\<rparr>\<rparr>)
      else (False, recomputeVisibleRegions, s))"

text \<open>
  Modelled from the spec: \<open>acquireNextBuffer()\<close>, which gives the oldest pending frame or
  fails with no mutation (the body of \<open>updateTexImage\<close> is missing).
\<close>

definition producer_updateTexImage ::
  "bool \<Rightarrow> nsecs_t \<Rightarrow> nsecs_t \<Rightarrow> producer layer \<Rightarrow> status_t \<times> bool \<times> producer layer" where
  "producer_updateTexImage recomputeVisibleRegions latchTime expectedPresentTime s =
     (case pendingFrames (derived s) of
        [] \<Rightarrow> (BAD_VALUE, recomputeVisibleRegions, s)
      | f # fs \<Rightarrow>
          (NO_ERROR, recomputeVisibleRegions,
           s\<lparr>derived := (derived s)\<lparr>pendingFrames := fs, acquiredFrame := Some f\<rparr>\<rparr>))"

text \<open>
  Modelled from the spec: the pixel resource of the acquired frame becomes the buffer of
  the latched state (the body of \<open>updateActiveBuffer\<close> is missing).
\<close>

definition producer_updateActiveBuffer :: "producer layer \<Rightarrow> status_t \<times> producer layer" where
  "producer_updateActiveBuffer s =
     (case acquiredFrame (derived s) of
        None \<Rightarrow> (BAD_VALUE, s)
      | Some f \<Rightarrow>
          (NO_ERROR,
           s\<lparr>mBufferInfo := (mBufferInfo s)\<lparr>mBuffer := Some (pixelResource f),
                                              mFenceSignaled := acquireFenceSignaled f\<rparr>\<rparr>))"

text \<open>
  Modelled from the spec: the frame number of the acquired frame becomes the current
  frame number (the body of \<open>updateFrameNumber\<close> is missing).
\<close>

definition producer_updateFrameNumber :: "nsecs_t \<Rightarrow> producer layer \<Rightarrow> status_t \<times> producer layer" where
  "producer_updateFrameNumber latchTime s =
     (case acquiredFrame (derived s) of
        None \<Rightarrow> (BAD_VALUE, s)
      | Some f \<Rightarrow> (NO_ERROR, s\<lparr>mCurrentFrameNumber := frameNumber f\<rparr>))"

text \<open>
  Modelled from the spec: the latched state takes the geometry of the acquired frame
  (the body of \<open>gatherBufferInfo\<close> is missing).
\<close>

definition producer_gatherBufferInfo :: "producer layer \<Rightarrow> producer layer" where
  "producer_gatherBufferInfo s =
     (case acquiredFrame (derived s) of
        None \<Rightarrow> s
      | Some f \<Rightarrow>
          s\<lparr>mBufferInfo := (mBufferInfo s)\<lparr>mDesiredPresentTime := desiredPresentTime f,
                                             mTransform := transformBitmask f,
                                             mCrop := cropRect f,
                                             mScaleMode := scalingMode f,
                                             mPixelFormat := pixelResourceFormat f,
                                             mTransformToDisplayInverse := orientationCorrection f\<rparr>\<rparr>)"

text \<open>
  Modelled from the spec: the producer's side of the layer, the hooks above together (the
  derived classes are missing).
\<close>

definition producerHooks :: "producer hooks" where
  "producerHooks =
     \<lparr>hasFrameUpdate = producer_hasFrameUpdate,
      getSidebandStreamChanged = (\<lambda>s. sidebandStreamChanged (derived s)),
      getAutoRefresh = (\<lambda>s. autoRefresh (derived s)),
      getFrameNumber = producer_getFrameNumber,
      fenceHasSignaled = producer_fenceHasSignaled,
      framePresentTimeIsCurrent = producer_framePresentTimeIsCurrent,
      latchSidebandStream = producer_latchSidebandStream,
      updateTexImage = producer_updateTexImage,
      updateActiveBuffer = producer_updateActiveBuffer,
      updateFrameNumber = producer_updateFrameNumber,
      gatherBufferInfo = producer_gatherBufferInfo\<rparr>"

text \<open>
  Modelled from the spec: the producer enqueues a frame (the producer's queue is
  missing). Frame numbers are monotonic and unique per layer: a frame may be enqueued
  when its number is above the current frame number and above every pending one.
\<close>

definition queueFrame :: "BufferFrame \<Rightarrow> producer layer \<Rightarrow> producer layer" where
  "queueFrame f s =
     s\<lparr>derived := (derived s)\<lparr>pendingFrames := pendingFrames (derived s) @ [f]\<rparr>\<rparr>"

text \<open>
  Modelled from the spec: what "monotonic, per-layer unique" asks of the number of a
  frame at the moment it is enqueued (the producer's queue is missing).
\<close>

definition frameNumberIsNew :: "BufferFrame \<Rightarrow> producer layer \<Rightarrow> bool" where
  "frameNumberIsNew f s =
     (mCurrentFrameNumber s < frameNumber f
      \<and> list_all (\<lambda>g. frameNumber g < frameNumber f) (pendingFrames (derived s)))"

text \<open>
  Modelled from the spec: the invariant of the producer's frame numbers (the producer's
  queue is missing): the pending frames are numbered in strictly ascending order, above
  the current frame number.
\<close>

definition frameNumbersMonotonic :: "producer layer \<Rightarrow> bool" where
  "frameNumbersMonotonic s =
     (sorted_wrt (<) (map frameNumber (pendingFrames (derived s)))
      \<and> list_all (\<lambda>g. mCurrentFrameNumber s < frameNumber g) (pendingFrames (derived s)))"

text \<open>
  The life of one layer: producer-side events and the calls of the refresh loop. A latch
  is observed when \<open>latchBuffer\<close> returns true after it acquired a buffer, that is, when
  the sideband step did not return first; the observation is \<open>mCurrentFrameNumber\<close>.
\<close>

datatype event =
    QueueFrame BufferFrame
  | PreComposition nsecs_t
  | Latch bool nsecs_t nsecs_t

fun observedFrameNumbers ::
  "pixel_formats \<Rightarrow> event list \<Rightarrow> producer layer \<Rightarrow> 64 word list" where
  "observedFrameNumbers pf [] s = []"
| "observedFrameNumbers pf (QueueFrame f # evs) s = observedFrameNumbers pf evs (queueFrame f s)"
| "observedFrameNumbers pf (PreComposition t # evs) s =
     observedFrameNumbers pf evs (snd (onPreComposition producerHooks t s))"
| "observedFrameNumbers pf (Latch r latchTime expectedPresentTime # evs) s =
     (case latchBuffer pf producerHooks r latchTime expectedPresentTime s of
        Inl f \<Rightarrow> []
      | Inr (latched, r', s') \<Rightarrow>
          (if latched \<and> \<not> fst (latchSidebandStream producerHooks r s)
           then mCurrentFrameNumber s' # observedFrameNumbers pf evs s'
           else observedFrameNumbers pf evs s'))"

fun producerIsMonotonic :: "pixel_formats \<Rightarrow> event list \<Rightarrow> producer layer \<Rightarrow> bool" where
  "producerIsMonotonic pf [] s = True"
| "producerIsMonotonic pf (QueueFrame f # evs) s =
     (frameNumberIsNew f s \<and> producerIsMonotonic pf evs (queueFrame f s))"
| "producerIsMonotonic pf (PreComposition t # evs) s =
     producerIsMonotonic pf evs (snd (onPreComposition producerHooks t s))"
| "producerIsMonotonic pf (Latch r latchTime expectedPresentTime # evs) s =
     (case latchBuffer pf producerHooks r latchTime expectedPresentTime s of
        Inl f \<Rightarrow> True
      | Inr (latched, r', s') \<Rightarrow> producerIsMonotonic pf evs s')"

section \<open>Scenarios\<close>

text \<open>
  Concrete layers, for evaluating the definitions: the scenarios of the specification's
  testable properties, on the producer of the previous section. The pixel format values
  are the ones of the Android graphics headers.
\<close>

definition androidPixelFormats :: pixel_formats where
  "androidPixelFormats =
     \<lparr>HAL_PIXEL_FORMAT_RGBA_8888 = 1, HAL_PIXEL_FORMAT_BGRA_8888 = 5,
      HAL_PIXEL_FORMAT_RGBA_FP16 = 0x16, HAL_PIXEL_FORMAT_RGBA_1010102 = 0x2B\<rparr>"

definition emptyBufferInfo :: BufferInfo where
  "emptyBufferInfo =
     \<lparr>mDesiredPresentTime = 0, mFenceSignaled = True, mTransform = 0,
      mCrop = \<lparr>r_left = 0, r_top = 0, r_right = 0, r_bottom = 0\<rparr>,
      mScaleMode = 0, mPixelFormat = 0, mTransformToDisplayInverse = False,
      mBuffer = None, mFrameLatencyNeeded = False\<rparr>"

definition idleProducer :: producer where
  "idleProducer =
     \<lparr>pendingFrames = [], acquiredFrame = None, sidebandStreamChanged = False,
      autoRefresh = False, latchUnsignaled = False\<rparr>"

definition newLayer :: "producer layer" where
  "newLayer =
     \<lparr>mLocalSyncPoints = [], mCurrentFrameNumber = 0, mRefreshPending = False,
      mBufferInfo = emptyBufferInfo, mSidebandStream = None,
      mDrawingState = \<lparr>st_flags = {}, st_sidebandStream = None,
                        st_activeWidth = 0, st_activeHeight = 0\<rparr>,
      mOverrideScalingMode = - 1, mNeedsFiltering = False,
      mFlinger = \<lparr>layerUpdatesSignaled = 0, flingerTransactionFlags = {}\<rparr>,
      liveLayers = (\<lambda>l. if l = 7 then Some {} else None),
      derived = idleProducer\<rparr>"

definition frame :: "64 word \<Rightarrow> bool \<Rightarrow> 32 word \<Rightarrow> BufferFrame" where
  "frame n signaled transform =
     \<lparr>frameNumber = n,
      pixelResource = \<lparr>gb_id = unat n, gb_width = 1080, gb_height = 1920, gb_usage = 0\<rparr>,
      pixelResourceFormat = 1,
      acquireFenceSignaled = signaled,
      cropRect = \<lparr>r_left = 0, r_top = 0, r_right = 1080, r_bottom = 1920\<rparr>,
      transformBitmask = transform, scalingMode = 0, desiredPresentTime = 0,
      orientationCorrection = False\<rparr>"

definition syncPoint :: "64 word \<Rightarrow> bool \<Rightarrow> bool \<Rightarrow> layer_id \<Rightarrow> SyncPoint" where
  "syncPoint n available applied requester =
     \<lparr>mFrameNumber = n, mFrameIsAvailable = available, mTransactionIsApplied = applied,
      mRequestedSyncLayer = requester\<rparr>"

text \<open>Scenario A: frame 1 queued, its fence unsignaled.\<close>

definition scenarioA :: "producer layer" where
  "scenarioA = queueFrame (frame 1 False 0) newLayer"

text \<open>Scenario B: the fence of frame 1 has signaled.\<close>

definition scenarioB :: "producer layer" where
  "scenarioB = queueFrame (frame 1 True 0) newLayer"

text \<open>
  Scenario C: the ledger holds a sync point for frame 2 that is not yet available, the
  head frame is 3 and its fence has signaled.
\<close>

definition scenarioC :: "producer layer" where
  "scenarioC =
     (queueFrame (frame 3 True 0) newLayer)\<lparr>mLocalSyncPoints := [syncPoint 2 False False 7]\<rparr>"

text \<open>As scenario C, with two sync points that are not yet available, for frames 1 and 2.\<close>

definition scenarioTwoPoints :: "producer layer" where
  "scenarioTwoPoints =
     (queueFrame (frame 3 True 0) newLayer)\<lparr>mLocalSyncPoints :=
        [syncPoint 1 False False 7, syncPoint 2 False False 8]\<rparr>"

text \<open>
  The head frame is 3, its fence has signaled; the sync points for frames 1 and 2 are
  available, the transaction of the second has not been applied.
\<close>

definition scenarioDeferred :: "producer layer" where
  "scenarioDeferred =
     (queueFrame (frame 3 True 0) newLayer)\<lparr>mLocalSyncPoints :=
        [syncPoint 1 True True 7, syncPoint 2 True False 7]\<rparr>"

text \<open>
  The head frame is 3, its fence has signaled; of the sync points, the one for frame 2 is
  satisfied, the one for frame 3 waits for its transaction, and the one for frame 5 is
  satisfied but ahead of the head frame.
\<close>

definition scenarioPrune :: "producer layer" where
  "scenarioPrune =
     (queueFrame (frame 3 True 0) newLayer)\<lparr>mLocalSyncPoints :=
        [syncPoint 2 True True 7, syncPoint 5 True True 7]\<rparr>"

text \<open>
  Scenario D, as a life of the layer: frame 1 is queued and latched, the composition
  runs, frame 2 arrives rotated by 90 degrees and is latched; a further latch attempt
  finds nothing new.
\<close>

definition twoFrames :: "event list" where
  "twoFrames =
     [QueueFrame (frame 1 True 0), Latch False 0 0, PreComposition 0,
      QueueFrame (frame 2 True 4), Latch False 0 0, PreComposition 0, Latch False 0 0]"

text \<open>The values of the Android headers, with the primary display not rotated.\<close>

definition androidPlatform :: platform where
  "androidPlatform =
     \<lparr>NATIVE_WINDOW_SCALING_MODE_FREEZE = 0, NATIVE_WINDOW_TRANSFORM_ROT_90 = 4,
      NATIVE_WINDOW_TRANSFORM_FLIP_H = 1, NATIVE_WINDOW_TRANSFORM_FLIP_V = 2,
      Transform_ROT_90 = 4, GRALLOC_USAGE_PROTECTED = 0x4000,
      primaryDisplayOrientationTransform = 0\<rparr>"

text \<open>
  A layer that has latched a buffer, scales it to the window, and whose active size in
  the drawing state is 0 by 0.
\<close>

definition zeroSizeLayer :: "producer layer" where
  "zeroSizeLayer =
     newLayer\<lparr>mCurrentFrameNumber := 1,
               mBufferInfo := emptyBufferInfo\<lparr>
                 mBuffer := Some \<lparr>gb_id = 1, gb_width = 1080, gb_height = 1920, gb_usage = 0\<rparr>,
                 mScaleMode := 1\<rparr>\<rparr>"

definition baseSettings :: LayerSettings where
  "baseSettings =
     \<lparr>ls_buffer = None, ls_isOpaque = False, ls_useTextureFiltering = False,
      ls_textureTransform = Identity, ls_alpha = Fin 1\<rparr>"

definition openTarget :: TargetSettings where
  "openTarget =
     \<lparr>ts_clip = {}, ts_needsFiltering = False, ts_isSecure = True,
      ts_supportsProtectedContent = True, ts_clearRegion = {}\<rparr>"

text \<open>The window is 100 by 100 at the origin; the buffer size is the one of \<open>getBufferSize\<close>.\<close>

definition squareWindow :: "producer composition" where
  "squareWindow =
     \<lparr>layerPrepareClientComposition = Some baseSettings, under = {}, isSecure = False,
      getBounds = \<lparr>r_left = 0, r_top = 0, r_right = 100, r_bottom = 100\<rparr>,
      getBufferSize_virtual = getBufferSize androidPlatform,
      drawingParentOrientation = None\<rparr>"

text \<open>
  The window is 100 by 200 at (10, 20); the derived class reports the invalid buffer
  size \<open>[0, 0, -1, -1]\<close>.
\<close>

definition noBufferSize :: "producer composition" where
  "noBufferSize =
     \<lparr>layerPrepareClientComposition = Some baseSettings, under = {}, isSecure = False,
      getBounds = \<lparr>r_left = 10, r_top = 20, r_right = 110, r_bottom = 220\<rparr>,
      getBufferSize_virtual = (\<lambda>s l. INVALID_RECT),
      drawingParentOrientation = None\<rparr>"

text \<open>An output layer that shows a crop of 50 by 100 in a frame of 100 by 100.\<close>

definition scaledOutput :: "nat \<Rightarrow> producer layer \<Rightarrow> OutputLayerCompositionState option" where
  "scaledOutput device l =
     Some \<lparr>displayFrame = \<lparr>r_left = 0, r_top = 0, r_right = 100, r_bottom = 100\<rparr>,
           sourceCrop = \<lparr>fr_left = Fin 0, fr_top = Fin 0, fr_right = Fin 50, fr_bottom = Fin 100\<rparr>\<rparr>"

text \<open>An output layer that shows a crop of 100 by 100 in a frame of 100 by 100.\<close>

definition unitOutput :: "nat \<Rightarrow> producer layer \<Rightarrow> OutputLayerCompositionState option" where
  "unitOutput device l =
     Some \<lparr>displayFrame = \<lparr>r_left = 0, r_top = 0, r_right = 100, r_bottom = 100\<rparr>,
           sourceCrop = \<lparr>fr_left = Fin 0, fr_top = Fin 0, fr_right = Fin 100, fr_bottom = Fin 100\<rparr>\<rparr>"

text \<open>An output layer that shows a crop of 100 by 50 in a frame of 100 by 100.\<close>

definition shortCropOutput :: "nat \<Rightarrow> producer layer \<Rightarrow> OutputLayerCompositionState option" where
  "shortCropOutput device l =
     Some \<lparr>displayFrame = \<lparr>r_left = 0, r_top = 0, r_right = 100, r_bottom = 100\<rparr>,
           sourceCrop = \<lparr>fr_left = Fin 0, fr_top = Fin 25, fr_right = Fin 100, fr_bottom = Fin 75\<rparr>\<rparr>"

text \<open>
  An output layer whose display frame is 16777217 wide, one more than \<open>2^24\<close>, and shows
  a crop that is 16777216 wide; both are 100 high.
\<close>

definition wideOutput :: "nat \<Rightarrow> producer layer \<Rightarrow> OutputLayerCompositionState option" where
  "wideOutput device l =
     Some \<lparr>displayFrame = \<lparr>r_left = 0, r_top = 0, r_right = 16777217, r_bottom = 100\<rparr>,
           sourceCrop = \<lparr>fr_left = Fin 0, fr_top = Fin 0, fr_right = Fin 16777216,
                          fr_bottom = Fin 100\<rparr>\<rparr>"

text \<open>
  A layer with no pending frame and auto-refresh on, whose ledger holds a sync point for
  the current frame 0 that is not yet available.
\<close>

definition scenarioAutoRefresh :: "producer layer" where
  "scenarioAutoRefresh =
     newLayer\<lparr>mLocalSyncPoints := [syncPoint 0 False False 7],
               derived := idleProducer\<lparr>autoRefresh := True\<rparr>\<rparr>"

text \<open>
  The same layer with auto-refresh off and the sideband flag raised, under hooks whose
  sideband step reports no change: the flag was raised by a producer thread after the
  step had run.
\<close>

definition scenarioLateSideband :: "producer layer" where
  "scenarioLateSideband =
     newLayer\<lparr>mLocalSyncPoints := [syncPoint 0 False False 7],
               derived := idleProducer\<lparr>sidebandStreamChanged := True\<rparr>\<rparr>"

definition lateSidebandHooks :: "producer hooks" where
  "lateSidebandHooks = producerHooks\<lparr>latchSidebandStream := (\<lambda>r s. (False, r, s))\<rparr>"

section \<open>Evaluation rules and auxiliary lemmas\<close>

lemmas producer_defs =
  producerHooks_def producer_hasFrameUpdate_def producer_getFrameNumber_def
  producer_fenceHasSignaled_def producer_framePresentTimeIsCurrent_def
  producer_latchSidebandStream_def producer_updateTexImage_def producer_updateActiveBuffer_def
  producer_updateFrameNumber_def producer_gatherBufferInfo_def

lemmas scenario_defs =
  androidPixelFormats_def emptyBufferInfo_def idleProducer_def newLayer_def frame_def
  syncPoint_def queueFrame_def

lemmas latch_defs =
  latchBuffer_def hasReadyFrame_def getHeadFrameNumber_def allTransactionsSignaled_def
  getFrameNumber_sp_def frameIsAvailable_def transactionIsApplied_def setFrameAvailable_def
  isOpaque_def getPixelFormat_def getOpacityForFormat_def HARDWARE_IS_DEVICE_FORMAT_def
  latchBuffer_recompute_def signalLayerUpdate_def flinger_setTransactionFlags_def
  setTransactionFlags_def

lemmas geometry_defs =
  prepareClientComposition_def prepareClientComposition_tr_def getBufferSize_def
  getEffectiveScalingMode_def isFixedSize_def isProtected_def getTransformToDisplayInverse_def
  getDrawingTransformMatrix_def inverseOrientation_def Rect_getWidth_def Rect_getHeight_def
  Rect_isValid_def Rect_of_size_def INVALID_RECT_def isFinite_def

text \<open>
  On a list in ascending order where every point reached by the head frame is available,
  the loop of \<open>allTransactionsSignaled\<close> marks nothing and reports whether every reached
  point has its transaction applied.
\<close>

lemma loop_all_available:
  "sorted (map mFrameNumber ps) \<Longrightarrow>
   \<forall>p\<in>set ps. mFrameNumber p \<le> h \<longrightarrow> mFrameIsAvailable p \<Longrightarrow>
   allTransactionsSignaled_loop h ps m a =
     (ps, m \<or> (\<exists>p\<in>set ps. mFrameNumber p \<le> h),
      a \<and> (\<forall>p\<in>set ps. mFrameNumber p \<le> h \<longrightarrow> mTransactionIsApplied p))"
proof (induction ps arbitrary: m a)
  case Nil
  then show ?case by simp
next
  case (Cons p ps)
  show ?case
  proof (cases "h < mFrameNumber p")
    case True
    with Cons.prems(1) have "\<forall>q\<in>set (p # ps). h < mFrameNumber q"
      by (auto intro: less_le_trans)
    then have "\<forall>q\<in>set (p # ps). \<not> mFrameNumber q \<le> h" 
      by (auto simp: not_le)
    with True show ?thesis
      by (simp add: getFrameNumber_sp_def)
  next
    case False
    then have le: "mFrameNumber p \<le> h" by (simp add: not_less)
    with Cons.prems(2) have av: "mFrameIsAvailable p" by simp
    from Cons.prems have "sorted (map mFrameNumber ps)"
      and "\<forall>q\<in>set ps. mFrameNumber q \<le> h \<longrightarrow> mFrameIsAvailable q" by simp_all
    from Cons.IH [OF this] False le av show ?thesis
      by (auto simp: getFrameNumber_sp_def frameIsAvailable_def transactionIsApplied_def)
  qed
qed

text \<open>The loop stops at the first point that is reached and not available, and marks it.\<close>

lemma loop_first_unavailable:
  "\<forall>p\<in>set pre. mFrameNumber p \<le> h \<and> mFrameIsAvailable p \<Longrightarrow>
   mFrameNumber e \<le> h \<Longrightarrow> \<not> mFrameIsAvailable e \<Longrightarrow>
   allTransactionsSignaled_loop h (pre @ e # post) m a =
     (pre @ setFrameAvailable e # post, True, False)"
  by (induction pre arbitrary: m a)
     (auto simp: getFrameNumber_sp_def frameIsAvailable_def not_less)

text \<open>When \<open>allTransactionsSignaled\<close> returns true it has marked no point.\<close>

lemma loop_signaled_unchanged:
  "allTransactionsSignaled_loop h ps m a = (ps', f, ap) \<Longrightarrow> \<not> f \<or> ap \<Longrightarrow> ps' = ps"
  by (induction ps arbitrary: m a ps' f ap)
     (auto split: if_splits prod.splits)

lemma allTransactionsSignaled_True:
  assumes "allTransactionsSignaled ops e s1 = (True, s2)"
  shows "s2 = s1"
proof -
  obtain ps' f ap where l: "allTransactionsSignaled_loop (getHeadFrameNumber ops e s1)
      (mLocalSyncPoints s1) False True = (ps', f, ap)"
    by (cases "allTransactionsSignaled_loop (getHeadFrameNumber ops e s1)
      (mLocalSyncPoints s1) False True") auto
  with assms have "\<not> f \<or> ap" and s2: "s2 = s1\<lparr>mLocalSyncPoints := ps'\<rparr>"
    by (auto simp: allTransactionsSignaled_def)
  from loop_signaled_unchanged [OF l this(1)] s2 show ?thesis by simp
qed

text \<open>The erasing loop is a filter.\<close>

lemma dropSyncPoints_filter:
  "latchBuffer_dropSyncPoints c ps =
     filter (\<lambda>p. \<not> (mFrameIsAvailable p \<and> mTransactionIsApplied p \<and> mFrameNumber p \<le> c)) ps"
  by (induction ps)
     (auto simp: getFrameNumber_sp_def frameIsAvailable_def transactionIsApplied_def)

text \<open>What a \<open>latchBuffer\<close> that returned true on the buffer path has done.\<close>

lemma latchBuffer_success:
  assumes "latchBuffer pf ops r t e s0 = Inr (True, r', s')"
    and "latchSidebandStream ops r s0 = (False, r1, s1)"
  shows "\<exists>r2 s3 s4 s5.
           hasReadyFrame ops s1 \<and> \<not> mRefreshPending s1 \<and> fenceHasSignaled ops s1
           \<and> allTransactionsSignaled ops e s1 = (True, s1)
           \<and> updateTexImage ops r1 t e s1 = (NO_ERROR, r2, s3)
           \<and> updateActiveBuffer ops s3 = (NO_ERROR, s4)
           \<and> updateFrameNumber ops t s4 = (NO_ERROR, s5)
           \<and> latchBuffer_recompute r2 (mBufferInfo s1) (isOpaque pf s1 (mDrawingState s1))
                (mBufferInfo (latched_state ops s5))
                (isOpaque pf (latched_state ops s5) (mDrawingState (latched_state ops s5))) = Inr r'
           \<and> s' = (latched_state ops s5)\<lparr>mLocalSyncPoints :=
                     latchBuffer_dropSyncPoints (mCurrentFrameNumber (latched_state ops s5))
                       (mLocalSyncPoints (latched_state ops s5))\<rparr>"
proof -
  from assms have a: "hasReadyFrame ops s1" "\<not> mRefreshPending s1" "fenceHasSignaled ops s1"
    by (auto simp: latchBuffer_def split: if_splits)
  obtain sg s2 where ats: "allTransactionsSignaled ops e s1 = (sg, s2)"
    by (cases "allTransactionsSignaled ops e s1") auto
  with assms a have sg: "sg" by (auto simp: latchBuffer_def split: if_splits)
  with ats have "allTransactionsSignaled ops e s1 = (True, s2)" by simp
  then have s2: "s2 = s1" by (rule allTransactionsSignaled_True)
  obtain e3 r2 s3 where u3: "updateTexImage ops r1 t e s1 = (e3, r2, s3)"
    by (cases "updateTexImage ops r1 t e s1") auto
  obtain e4 s4 where u4: "updateActiveBuffer ops s3 = (e4, s4)"
    by (cases "updateActiveBuffer ops s3") auto
  obtain e5 s5 where u5: "updateFrameNumber ops t s4 = (e5, s5)"
    by (cases "updateFrameNumber ops t s4") auto
  from assms a ats sg s2 u3 have e3: "e3 = NO_ERROR"
    by (auto simp: latchBuffer_def split: if_splits)
  from assms a ats sg s2 u3 e3 u4 have e4: "e4 = NO_ERROR"
    by (auto simp: latchBuffer_def split: if_splits)
  from assms a ats sg s2 u3 e3 u4 e4 u5 have e5: "e5 = NO_ERROR"
    by (auto simp: latchBuffer_def split: if_splits)
  from assms a ats sg s2 u3 e3 u4 e4 u5 e5 show ?thesis
    by (auto simp: latchBuffer_def latched_state_def Let_def split: sum.splits)
qed

lemma recompute_Inr:
  assumes "latchBuffer_recompute r old oo new no = Inr r'"
  shows "r' = (r \<or> mBuffer old = None
               \<or> mCrop new \<noteq> mCrop old \<or> mTransform new \<noteq> mTransform old
               \<or> mScaleMode new \<noteq> mScaleMode old
               \<or> mTransformToDisplayInverse new \<noteq> mTransformToDisplayInverse old
               \<or> (\<exists>ob nb. mBuffer old = Some ob \<and> mBuffer new = Some nb
                     \<and> (gb_width nb \<noteq> gb_width ob \<or> gb_height nb \<noteq> gb_height ob))
               \<or> oo \<noteq> no)"
  using assms
  by (auto simp: latchBuffer_recompute_def Let_def split: option.splits if_splits)

text \<open>The loop of \<open>notifyAvailableFrames\<close> in closed form.\<close>

lemma notify_loop_off:
  "\<not> (fs \<and> pc) \<Longrightarrow> notifyAvailableFrames_loop h fs pc ps layers = (ps, layers)"
  by (induction ps arbitrary: layers) auto

lemma notify_loop_on:
  "notifyAvailableFrames_loop h True True ps layers =
     (map (\<lambda>p. if mFrameNumber p \<le> h then p\<lparr>mFrameIsAvailable := True\<rparr> else p) ps,
      (\<lambda>l. case layers l of
             None \<Rightarrow> None
           | Some flags \<Rightarrow>
               Some (if \<exists>p\<in>set ps. mFrameNumber p \<le> h \<and> mRequestedSyncLayer p = l
                     then insert eTransactionNeeded flags else flags)))"
proof (induction ps arbitrary: layers)
  case Nil
  show ?case by (auto simp: fun_eq_iff split: option.splits)
next
  case (Cons p ps)
  show ?case
    by (auto simp: fun_eq_iff Cons.IH getFrameNumber_sp_def layer_setTransactionFlags_def
          setTransactionFlags_def setFrameAvailable_def
        split: option.splits)
qed

lemma notify_loop:
  "notifyAvailableFrames_loop h fs pc ps layers =
     (map (\<lambda>p. if mFrameNumber p \<le> h \<and> fs \<and> pc then p\<lparr>mFrameIsAvailable := True\<rparr> else p) ps,
      (\<lambda>l. case layers l of
             None \<Rightarrow> None
           | Some flags \<Rightarrow>
               Some (if \<exists>p\<in>set ps. mFrameNumber p \<le> h \<and> fs \<and> pc \<and> mRequestedSyncLayer p = l
                     then insert eTransactionNeeded flags else flags)))"
proof (cases "fs \<and> pc")
  case True
  then have "fs" and "pc" by simp_all
  then show ?thesis by (simp add: notify_loop_on cong: option.case_cong)
next
  case False
  then show ?thesis
    by (auto simp: notify_loop_off fun_eq_iff map_idI split: option.splits)
qed

text \<open>
  The order of the ledger: the two operations of this file that write
  \<open>mLocalSyncPoints\<close> keep the frame numbers of the entries they leave in place, so a
  ledger in ascending order stays so.
\<close>

lemma loop_frameNumbers:
  "map mFrameNumber (fst (allTransactionsSignaled_loop h ps m a)) = map mFrameNumber ps"
  by (induction ps arbitrary: m a) (simp_all add: setFrameAvailable_def case_prod_beta)

lemma allTransactionsSignaled_frameNumbers:
  "map mFrameNumber (mLocalSyncPoints (snd (allTransactionsSignaled ops e s))) =
     map mFrameNumber (mLocalSyncPoints s)"
  using loop_frameNumbers [of "getHeadFrameNumber ops e s" "mLocalSyncPoints s" False True]
  by (auto simp: allTransactionsSignaled_def Let_def split: prod.splits)

lemma notifyAvailableFrames_frameNumbers:
  "map mFrameNumber (mLocalSyncPoints (notifyAvailableFrames ops e s)) =
     map mFrameNumber (mLocalSyncPoints s)"
  by (simp add: notifyAvailableFrames_def Let_def notify_loop o_def if_distrib cong: if_cong)

lemma sorted_dropSyncPoints:
  "sorted (map mFrameNumber ps) \<Longrightarrow> sorted (map mFrameNumber (latchBuffer_dropSyncPoints c ps))"
  by (simp add: dropSyncPoints_filter sorted_map sorted_wrt_filter)

lemma latchBuffer_keeps_order:
  assumes "latchBuffer pf ops r t e s0 = Inr (b, r', s')"
    and "hooks_keep_sync_points ops"
    and "mLocalSyncPoints (snd (snd (latchSidebandStream ops r s0))) = mLocalSyncPoints s0"
    and "sorted (map mFrameNumber (mLocalSyncPoints s0))"
  shows "sorted (map mFrameNumber (mLocalSyncPoints s'))"
proof -
  obtain rr r1 s1 where sb: "latchSidebandStream ops r s0 = (rr, r1, s1)"
    by (cases "latchSidebandStream ops r s0") auto
  with assms(3,4) have so1: "sorted (map mFrameNumber (mLocalSyncPoints s1))" by simp
  obtain sg s2 where ats: "allTransactionsSignaled ops e s1 = (sg, s2)"
    by (cases "allTransactionsSignaled ops e s1") auto
  with allTransactionsSignaled_frameNumbers [of ops e s1] so1
  have so2: "sorted (map mFrameNumber (mLocalSyncPoints s2))" by simp
  obtain e3 r2 s3 where u3: "updateTexImage ops r1 t e s2 = (e3, r2, s3)"
    by (cases "updateTexImage ops r1 t e s2") auto
  obtain e4 s4 where u4: "updateActiveBuffer ops s3 = (e4, s4)"
    by (cases "updateActiveBuffer ops s3") auto
  obtain e5 s5 where u5: "updateFrameNumber ops t s4 = (e5, s5)"
    by (cases "updateFrameNumber ops t s4") auto
  from assms(2) have "mLocalSyncPoints (snd (snd (updateTexImage ops r1 t e s2))) = mLocalSyncPoints s2"
    unfolding hooks_keep_sync_points_def by blast
  with u3 so2 have so3: "sorted (map mFrameNumber (mLocalSyncPoints s3))" by simp
  from assms(2) have "mLocalSyncPoints (snd (updateActiveBuffer ops s3)) = mLocalSyncPoints s3"
    unfolding hooks_keep_sync_points_def by blast
  with u4 so3 have so4: "sorted (map mFrameNumber (mLocalSyncPoints s4))" by simp
  from assms(2) have "mLocalSyncPoints (snd (updateFrameNumber ops t s4)) = mLocalSyncPoints s4"
    unfolding hooks_keep_sync_points_def by blast
  with u5 so4 have so5: "sorted (map mFrameNumber (mLocalSyncPoints s5))" by simp
  from assms(2) have "mLocalSyncPoints (gatherBufferInfo ops s5) = mLocalSyncPoints s5"
    unfolding hooks_keep_sync_points_def by blast
  with so5 have so6: "sorted (map mFrameNumber (mLocalSyncPoints (gatherBufferInfo ops s5)))" by simp
  from assms(1) sb ats u3 u4 u5 so1 so2 so3 so4 so5 sorted_dropSyncPoints [OF so6]
  show ?thesis
    by (auto simp: latchBuffer_def Let_def split: if_splits sum.splits)
qed

text \<open>
  Once \<open>latchUnsignaledBuffers\<close> has read the property, it answers from its statics
  whatever the property has become.
\<close>

lemma latchUnsignaledBuffers_cached:
  "latchUnsignaledBuffers property_get' atoi' (snd (latchUnsignaledBuffers property_get atoi statics)) =
     latchUnsignaledBuffers property_get atoi statics"
  by (simp add: latchUnsignaledBuffers_def Let_def)

text \<open>The producer's hooks leave the sync points alone.\<close>

lemma producerHooks_keep: "hooks_keep_sync_points producerHooks"
  by (simp add: hooks_keep_sync_points_def producer_defs split: list.splits option.splits)

section \<open>Sync points that are not yet available (C1)\<close>

text \<open>
  C1, as amended. The claim reads: during a latch attempt, if the ledger holds an entry
  with target frame number at most the head frame number whose \<open>frameAvailable\<close> flag is
  false, then \<open>latchBuffer\<close> sets that entry's flag, returns false without latching, and
  the entry remains. The loop of \<open>allTransactionsSignaled\<close> breaks after the first such
  entry, so only the first one is marked. Proved here: when the latch attempt reaches
  the sync points (the sideband step returned false in the layer \<open>s1\<close>, a frame is ready,
  no refresh is pending, the fence has signaled), the ledger is in ascending order and
  \<open>p\<close> is its first entry that is not available, with target at most the head frame
  number, then \<open>latchBuffer\<close> returns false, and the layer it leaves is \<open>s1\<close> with that one
  entry marked available and \<open>eTraversalNeeded\<close> set on the flinger: every entry remains,
  all others as they were, and the latched state and the frame number are untouched.
\<close>

theorem latchBuffer_marks_first_unavailable:
  assumes "latchSidebandStream ops r s0 = (False, r1, s1)"
    and "hasReadyFrame ops s1"
    and "\<not> mRefreshPending s1"
    and "fenceHasSignaled ops s1"
    and "mLocalSyncPoints s1 = pre @ p # post"
    and "sorted (map mFrameNumber (mLocalSyncPoints s1))"
    and "\<forall>q\<in>set pre. mFrameIsAvailable q"
    and "mFrameNumber p \<le> getHeadFrameNumber ops e s1"
    and "\<not> mFrameIsAvailable p"
  shows "latchBuffer pf ops r t e s0 =
           Inr (False, r1,
                s1\<lparr>mLocalSyncPoints := pre @ p\<lparr>mFrameIsAvailable := True\<rparr> # post,
                   mFlinger := flinger_setTransactionFlags eTraversalNeeded (mFlinger s1)\<rparr>)"
proof -
  let ?h = "getHeadFrameNumber ops e s1"
  from assms(5,6) have "\<forall>q\<in>set pre. mFrameNumber q \<le> mFrameNumber p"
    by (simp add: sorted_append)
  with assms(8) have "\<forall>q\<in>set pre. mFrameNumber q \<le> ?h" by auto
  with assms(7) have "\<forall>q\<in>set pre. mFrameNumber q \<le> ?h \<and> mFrameIsAvailable q" by simp
  from loop_first_unavailable [OF this assms(8,9)]
  have "allTransactionsSignaled ops e s1 =
          (False, s1\<lparr>mLocalSyncPoints := pre @ setFrameAvailable p # post\<rparr>)"
    by (simp add: allTransactionsSignaled_def assms(5))
  with assms(1-4) show ?thesis
    by (simp add: latchBuffer_def setFrameAvailable_def)
qed

text \<open>
  The amended statement at scenario C: the sync point for frame 2 becomes available and
  stays in the ledger, and the latch returns false.
\<close>

theorem latchBuffer_marks_first_unavailable_witness:
  "latchBuffer androidPixelFormats producerHooks False 0 0 scenarioC =
     Inr (False, False,
          scenarioC\<lparr>mLocalSyncPoints := [syncPoint 2 True False 7],
                     mFlinger := flinger_setTransactionFlags eTraversalNeeded (mFlinger scenarioC)\<rparr>)"
proof -
  have sb: "latchSidebandStream producerHooks False scenarioC = (False, False, scenarioC)"
    by (simp add: producer_defs scenarioC_def scenario_defs)
  have rd: "hasReadyFrame producerHooks scenarioC"
    by (simp add: hasReadyFrame_def producer_defs scenarioC_def scenario_defs)
  have rp: "\<not> mRefreshPending scenarioC"
    by (simp add: scenarioC_def scenario_defs)
  have fe: "fenceHasSignaled producerHooks scenarioC"
    by (simp add: producer_defs scenarioC_def scenario_defs)
  have hd: "getHeadFrameNumber producerHooks 0 scenarioC = 3"
    by (simp add: getHeadFrameNumber_def producer_defs scenarioC_def scenario_defs)
  have li: "mLocalSyncPoints scenarioC = [] @ syncPoint 2 False False 7 # []"
    by (simp add: scenarioC_def scenario_defs)
  have so: "sorted (map mFrameNumber (mLocalSyncPoints scenarioC))"
    by (simp add: scenarioC_def scenario_defs)
  have pr: "\<forall>q\<in>set []. mFrameIsAvailable q" by simp
  have le: "mFrameNumber (syncPoint 2 False False 7) \<le> getHeadFrameNumber producerHooks 0 scenarioC"
    by (simp add: hd syncPoint_def)
  have na: "\<not> mFrameIsAvailable (syncPoint 2 False False 7)"
    by (simp add: syncPoint_def)
  from latchBuffer_marks_first_unavailable [OF sb rd rp fe li so pr le na, of androidPixelFormats 0]
  show ?thesis by (simp add: syncPoint_def)
qed

text \<open>
  C1 as stated fails where two entries are reached and not available: the entry for
  frame 2, second in the ledger, has its target below the head frame 3 and is not
  available, and after the latch attempt, which marked the entry for frame 1 and
  returned false, it is still not available.
\<close>

theorem latchBuffer_second_point_not_marked:
  "mLocalSyncPoints scenarioTwoPoints ! 1 = syncPoint 2 False False 8
   \<and> mFrameNumber (syncPoint 2 False False 8)
      \<le> getHeadFrameNumber producerHooks 0 scenarioTwoPoints
   \<and> \<not> mFrameIsAvailable (syncPoint 2 False False 8)
   \<and> latchBuffer androidPixelFormats producerHooks False 0 0 scenarioTwoPoints =
       Inr (False, False,
            scenarioTwoPoints\<lparr>mLocalSyncPoints :=
                                 [syncPoint 1 True False 7, syncPoint 2 False False 8],
                               mFlinger :=
                                 flinger_setTransactionFlags eTraversalNeeded
                                   (mFlinger scenarioTwoPoints)\<rparr>)"
  by (simp add: scenarioTwoPoints_def scenario_defs producer_defs latch_defs)

section \<open>Frame numbers across successful latches (C2)\<close>

text \<open>
  On the producer of the specification a latch attempt either leaves the pending frames
  and the current frame number as they were, or it takes the oldest pending frame and
  makes its number the current frame number.
\<close>

lemma producer_latch_cases:
  assumes "latchBuffer pf producerHooks r t e s = Inr (latched, r', s')"
  shows "(pendingFrames (derived s') = pendingFrames (derived s)
            \<and> mCurrentFrameNumber s' = mCurrentFrameNumber s
            \<and> (latched \<longrightarrow> fst (latchSidebandStream producerHooks r s)))
       \<or> (\<exists>f. pendingFrames (derived s) = f # pendingFrames (derived s')
              \<and> mCurrentFrameNumber s' = frameNumber f)"
proof (cases "fst (latchSidebandStream producerHooks r s)")
  case True
  with assms show ?thesis
    by (auto simp: latchBuffer_def producer_defs split: if_splits)
next
  case False
  then have sb: "latchSidebandStream producerHooks r s = (False, r, s)"
    by (auto simp: producer_defs split: if_splits)
  show ?thesis
  proof (cases latched)
    case True
    with assms have la: "latchBuffer pf producerHooks r t e s = Inr (True, r', s')" by simp
    from latchBuffer_success [OF la sb] obtain r2 s3 s4 s5 where
      u3: "updateTexImage producerHooks r t e s = (NO_ERROR, r2, s3)" and
      u4: "updateActiveBuffer producerHooks s3 = (NO_ERROR, s4)" and
      u5: "updateFrameNumber producerHooks t s4 = (NO_ERROR, s5)" and
      s': "s' = (latched_state producerHooks s5)\<lparr>mLocalSyncPoints :=
                     latchBuffer_dropSyncPoints (mCurrentFrameNumber (latched_state producerHooks s5))
                       (mLocalSyncPoints (latched_state producerHooks s5))\<rparr>"
      by blast
    from u3 obtain f fs where pf: "pendingFrames (derived s) = f # fs"
      and s3: "s3 = s\<lparr>derived := (derived s)\<lparr>pendingFrames := fs, acquiredFrame := Some f\<rparr>\<rparr>"
      by (auto simp: producer_defs split: list.splits)
    from u4 s3 have p4: "pendingFrames (derived s4) = fs" and a4: "acquiredFrame (derived s4) = Some f"
      by (auto simp: producer_defs split: option.splits)
    from u5 p4 a4 have p5: "pendingFrames (derived s5) = fs" and a5: "acquiredFrame (derived s5) = Some f"
      and c5: "mCurrentFrameNumber s5 = frameNumber f"
      by (auto simp: producer_defs split: option.splits)
    from p5 a5 c5 have "pendingFrames (derived s') = fs" and "mCurrentFrameNumber s' = frameNumber f"
      by (auto simp: s' latched_state_def producer_defs split: option.splits)
    with pf show ?thesis by simp
  next
    case False
    with assms sb have "pendingFrames (derived s') = pendingFrames (derived s)
            \<and> mCurrentFrameNumber s' = mCurrentFrameNumber s"
      by (auto simp: latchBuffer_def producer_defs allTransactionsSignaled_def Let_def
            split: if_splits prod.splits sum.splits list.splits option.splits)
    with False show ?thesis by simp
  qed
qed

lemma producer_latch_preserves:
  assumes "frameNumbersMonotonic s"
    and "latchBuffer pf producerHooks r t e s = Inr (latched, r', s')"
  shows "frameNumbersMonotonic s'"
    and "mCurrentFrameNumber s \<le> mCurrentFrameNumber s'"
    and "latched \<Longrightarrow> \<not> fst (latchSidebandStream producerHooks r s) \<Longrightarrow>
         mCurrentFrameNumber s < mCurrentFrameNumber s'"
  using producer_latch_cases [OF assms(2)] assms(1)
  by (auto simp: frameNumbersMonotonic_def list_all_iff)

lemma queueFrame_preserves:
  assumes "frameNumbersMonotonic s" and "frameNumberIsNew f s"
  shows "frameNumbersMonotonic (queueFrame f s)"
    and "mCurrentFrameNumber (queueFrame f s) = mCurrentFrameNumber s"
  using assms
  by (auto simp: frameNumbersMonotonic_def frameNumberIsNew_def queueFrame_def list_all_iff
        sorted_wrt_append)

lemma onPreComposition_preserves:
  assumes "frameNumbersMonotonic s"
  shows "frameNumbersMonotonic (snd (onPreComposition producerHooks t s))"
    and "mCurrentFrameNumber (snd (onPreComposition producerHooks t s)) = mCurrentFrameNumber s"
  using assms by (auto simp: frameNumbersMonotonic_def onPreComposition_def Let_def)

lemma observed_above_current:
  "frameNumbersMonotonic s \<Longrightarrow> producerIsMonotonic pf evs s \<Longrightarrow>
   sorted_wrt (<) (observedFrameNumbers pf evs s)
   \<and> (\<forall>n\<in>set (observedFrameNumbers pf evs s). mCurrentFrameNumber s < n)"
proof (induction pf evs s rule: observedFrameNumbers.induct)
  case (1 pf s)
  show ?case by simp
next
  case (2 pf f evs s)
  from "2.prems" have new: "frameNumberIsNew f s" and rest: "producerIsMonotonic pf evs (queueFrame f s)"
    by simp_all
  from queueFrame_preserves [OF "2.prems"(1) new] "2.IH" rest show ?case by simp
next
  case (3 pf t evs s)
  from "3.prems" have rest: "producerIsMonotonic pf evs (snd (onPreComposition producerHooks t s))"
    by simp
  from onPreComposition_preserves [OF "3.prems"(1), of t] "3.IH" rest show ?case by simp
next
  case (4 pf r latchTime expectedPresentTime evs s)
  show ?case
  proof (cases "latchBuffer pf producerHooks r latchTime expectedPresentTime s")
    case (Inl f)
    then show ?thesis by simp
  next
    case (Inr res)
    obtain latched r' s' where res: "res = (latched, r', s')" by (cases res) auto
    with Inr have la: "latchBuffer pf producerHooks r latchTime expectedPresentTime s = Inr (latched, r', s')"
      by simp
    note pres = producer_latch_preserves [OF "4.prems"(1) la]
    from "4.prems"(2) la have rest: "producerIsMonotonic pf evs s'" by simp
    show ?thesis
    proof (cases "latched \<and> \<not> fst (latchSidebandStream producerHooks r s)")
      case True
      from "4.IH"(1) [OF la refl refl True pres(1) rest]
      have ih: "sorted_wrt (<) (observedFrameNumbers pf evs s')"
        "\<forall>n\<in>set (observedFrameNumbers pf evs s'). mCurrentFrameNumber s' < n" by simp_all
      from True pres(3) have lt: "mCurrentFrameNumber s < mCurrentFrameNumber s'" by simp
      from ih lt True la show ?thesis by (auto intro: less_trans)
    next
      case False
      from "4.IH"(2) [OF la refl refl False pres(1) rest]
      have ih: "sorted_wrt (<) (observedFrameNumbers pf evs s')"
        "\<forall>n\<in>set (observedFrameNumbers pf evs s'). mCurrentFrameNumber s' < n" by simp_all
      from ih pres(2) False la show ?thesis by (auto intro: le_less_trans)
    qed
  qed
qed

text \<open>
  C2: for every sequence of successful latches on one layer (each a \<open>latchBuffer\<close> that
  returned true after acquiring a buffer), the observed current frame number is strictly
  increasing. Proved for every life of a layer on the producer of the specification,
  whose frame numbers are monotonic and unique: whatever the order of producer events,
  compositions and latch attempts, the frame numbers observed at the successful latches
  are in strictly ascending order.
\<close>

theorem observedFrameNumbers_increasing:
  assumes "frameNumbersMonotonic s" and "producerIsMonotonic pf evs s"
  shows "sorted_wrt (<) (observedFrameNumbers pf evs s)"
  using observed_above_current [OF assms] by simp

text \<open>
  Two frames queued and latched in turn are observed as 1 and 2; the third latch attempt
  finds no new frame and is not observed.
\<close>

theorem observedFrameNumbers_increasing_witness:
  "frameNumbersMonotonic newLayer
   \<and> producerIsMonotonic androidPixelFormats twoFrames newLayer
   \<and> observedFrameNumbers androidPixelFormats twoFrames newLayer = [1, 2]
   \<and> sorted_wrt (<) (observedFrameNumbers androidPixelFormats twoFrames newLayer)"
proof -
  have inv: "frameNumbersMonotonic newLayer"
    by (simp add: frameNumbersMonotonic_def scenario_defs)
  have mono: "producerIsMonotonic androidPixelFormats twoFrames newLayer"
    by (simp add: twoFrames_def frameNumberIsNew_def onPreComposition_def Let_def
          scenario_defs producer_defs latch_defs)
  have obs: "observedFrameNumbers androidPixelFormats twoFrames newLayer = [1, 2]"
    by (simp add: twoFrames_def onPreComposition_def Let_def
          scenario_defs producer_defs latch_defs)
  from observedFrameNumbers_increasing [OF inv mono] inv mono obs show ?thesis by simp
qed

section \<open>What a successful latch erases (C3)\<close>

text \<open>
  C3: a successful latch removes a sync point only when its \<open>frameAvailable\<close> flag is
  true, its \<open>transactionApplied\<close> flag is true and its target frame number is at most the
  newly latched frame number; every other entry remains. Proved for a \<open>latchBuffer\<close> that
  returned true on the buffer path, with hooks that leave \<open>mLocalSyncPoints\<close> alone: the
  ledger afterwards is the ledger before, in the same order, without exactly the entries
  that satisfy all three conditions.
\<close>

theorem latchBuffer_drops_satisfied_points:
  assumes "latchBuffer pf ops r t e s0 = Inr (True, r', s')"
    and "latchSidebandStream ops r s0 = (False, r1, s1)"
    and "hooks_keep_sync_points ops"
  shows "mLocalSyncPoints s' =
           filter (\<lambda>p. \<not> (mFrameIsAvailable p \<and> mTransactionIsApplied p
                            \<and> mFrameNumber p \<le> mCurrentFrameNumber s'))
                  (mLocalSyncPoints s1)"
proof -
  from latchBuffer_success [OF assms(1,2)] obtain r2 s3 s4 s5 where
    u3: "updateTexImage ops r1 t e s1 = (NO_ERROR, r2, s3)" and
    u4: "updateActiveBuffer ops s3 = (NO_ERROR, s4)" and
    u5: "updateFrameNumber ops t s4 = (NO_ERROR, s5)" and
    s': "s' = (latched_state ops s5)\<lparr>mLocalSyncPoints :=
                     latchBuffer_dropSyncPoints (mCurrentFrameNumber (latched_state ops s5))
                       (mLocalSyncPoints (latched_state ops s5))\<rparr>"
    by blast
  from assms(3) have "mLocalSyncPoints (snd (snd (updateTexImage ops r1 t e s1))) = mLocalSyncPoints s1"
    unfolding hooks_keep_sync_points_def by blast
  with u3 have k3: "mLocalSyncPoints s3 = mLocalSyncPoints s1" by simp
  from assms(3) have "mLocalSyncPoints (snd (updateActiveBuffer ops s3)) = mLocalSyncPoints s3"
    unfolding hooks_keep_sync_points_def by blast
  with u4 have k4: "mLocalSyncPoints s4 = mLocalSyncPoints s3" by simp
  from assms(3) have "mLocalSyncPoints (snd (updateFrameNumber ops t s4)) = mLocalSyncPoints s4"
    unfolding hooks_keep_sync_points_def by blast
  with u5 have k5: "mLocalSyncPoints s5 = mLocalSyncPoints s4" by simp
  from assms(3) have k6: "mLocalSyncPoints (gatherBufferInfo ops s5) = mLocalSyncPoints s5"
    unfolding hooks_keep_sync_points_def by blast
  have "mLocalSyncPoints (latched_state ops s5) = mLocalSyncPoints s1"
    by (simp add: latched_state_def k3 k4 k5 k6)
  moreover have "mCurrentFrameNumber s' = mCurrentFrameNumber (latched_state ops s5)"
    by (simp add: s')
  ultimately show ?thesis
    by (simp add: s' dropSyncPoints_filter)
qed

text \<open>
  At a layer whose head frame is 3: the satisfied point for frame 2 is erased, the
  satisfied point for frame 5 remains.
\<close>

theorem latchBuffer_drops_satisfied_points_witness:
  "\<exists>r' s'. latchBuffer androidPixelFormats producerHooks False 0 0 scenarioPrune = Inr (True, r', s')
     \<and> mCurrentFrameNumber s' = 3
     \<and> mLocalSyncPoints scenarioPrune = [syncPoint 2 True True 7, syncPoint 5 True True 7]
     \<and> mLocalSyncPoints s' = [syncPoint 5 True True 7]"
proof -
  have sb: "latchSidebandStream producerHooks False scenarioPrune = (False, False, scenarioPrune)"
    by (simp add: producer_defs scenarioPrune_def scenario_defs)
  have "\<exists>s'. latchBuffer androidPixelFormats producerHooks False 0 0 scenarioPrune = Inr (True, True, s')
     \<and> mCurrentFrameNumber s' = 3"
    by (simp add: scenarioPrune_def scenario_defs producer_defs latch_defs)
  then have "\<exists>r' s'. latchBuffer androidPixelFormats producerHooks False 0 0 scenarioPrune = Inr (True, r', s')
     \<and> mCurrentFrameNumber s' = 3" by blast
  then obtain r' s' where
    la: "latchBuffer androidPixelFormats producerHooks False 0 0 scenarioPrune = Inr (True, r', s')"
    and cu: "mCurrentFrameNumber s' = 3" by blast
  have li: "mLocalSyncPoints scenarioPrune = [syncPoint 2 True True 7, syncPoint 5 True True 7]"
    by (simp add: scenarioPrune_def scenario_defs)
  from latchBuffer_drops_satisfied_points [OF la sb producerHooks_keep]
  have "mLocalSyncPoints s' = [syncPoint 5 True True 7]"
    by (simp add: cu li) (simp add: syncPoint_def)
  with la cu li show ?thesis by blast
qed

section \<open>An unsignaled fence (C4)\<close>

text \<open>
  C4: if a new frame is pending, no refresh is pending and \<open>fenceHasSignaled()\<close> reports
  that the head frame's acquire fence has not signaled (it reports true under the
  override policy), then \<open>latchBuffer\<close> returns false, calls \<open>signalLayerUpdate\<close> once, and
  leaves \<open>mBufferInfo\<close>, the current frame number and the sync points as they were after
  the sideband step.
\<close>

theorem latchBuffer_fence_unsignaled:
  assumes "latchSidebandStream ops r s0 = (False, r1, s1)"
    and "hasFrameUpdate ops s1"
    and "\<not> mRefreshPending s1"
    and "\<not> fenceHasSignaled ops s1"
  shows "\<exists>s'. latchBuffer pf ops r t e s0 = Inr (False, r1, s')
           \<and> s' = s1\<lparr>mFlinger := signalLayerUpdate (mFlinger s1)\<rparr>
           \<and> layerUpdatesSignaled (mFlinger s') = Suc (layerUpdatesSignaled (mFlinger s1))
           \<and> mBufferInfo s' = mBufferInfo s1
           \<and> mCurrentFrameNumber s' = mCurrentFrameNumber s1
           \<and> mLocalSyncPoints s' = mLocalSyncPoints s1"
  using assms by (simp add: latchBuffer_def hasReadyFrame_def signalLayerUpdate_def)

text \<open>Scenario A: frame 1 queued, fence unsignaled, no override.\<close>

theorem latchBuffer_fence_unsignaled_witness:
  "latchBuffer androidPixelFormats producerHooks False 0 0 scenarioA =
     Inr (False, False, scenarioA\<lparr>mFlinger := signalLayerUpdate (mFlinger scenarioA)\<rparr>)
   \<and> mBufferInfo (scenarioA\<lparr>mFlinger := signalLayerUpdate (mFlinger scenarioA)\<rparr>) = emptyBufferInfo"
proof -
  have sb: "latchSidebandStream producerHooks False scenarioA = (False, False, scenarioA)"
    by (simp add: producer_defs scenarioA_def scenario_defs)
  have rd: "hasFrameUpdate producerHooks scenarioA"
    by (simp add: producer_defs scenarioA_def scenario_defs)
  have rp: "\<not> mRefreshPending scenarioA"
    by (simp add: scenarioA_def scenario_defs)
  have fe: "\<not> fenceHasSignaled producerHooks scenarioA"
    by (simp add: producer_defs scenarioA_def scenario_defs)
  from latchBuffer_fence_unsignaled [OF sb rd rp fe, of androidPixelFormats 0 0]
  show ?thesis by (auto simp: scenarioA_def scenario_defs)
qed

section \<open>A transaction that is not yet applied (C5)\<close>

text \<open>
  C5: if every sync point with target at most the head frame number is available and at
  least one of them has \<open>transactionApplied\<close> false, then \<open>latchBuffer\<close> defers: it
  returns false, and the layer it leaves differs from the one after the sideband step
  only in the flinger's \<open>eTraversalNeeded\<close> flag, so no buffer was acquired, the latched
  state is unchanged and no sync point was removed or changed. The ledger is in ascending
  order of target frame number, as the data model has it; the loop stops at the first
  entry beyond the head frame.
\<close>

theorem latchBuffer_defers:
  assumes "latchSidebandStream ops r s0 = (False, r1, s1)"
    and "hasReadyFrame ops s1"
    and "\<not> mRefreshPending s1"
    and "fenceHasSignaled ops s1"
    and "sorted (map mFrameNumber (mLocalSyncPoints s1))"
    and "\<forall>p\<in>set (mLocalSyncPoints s1).
           mFrameNumber p \<le> getHeadFrameNumber ops e s1 \<longrightarrow> mFrameIsAvailable p"
    and "\<exists>p\<in>set (mLocalSyncPoints s1).
           mFrameNumber p \<le> getHeadFrameNumber ops e s1 \<and> \<not> mTransactionIsApplied p"
  shows "latchBuffer pf ops r t e s0 =
           Inr (False, r1, s1\<lparr>mFlinger := flinger_setTransactionFlags eTraversalNeeded (mFlinger s1)\<rparr>)"
proof -
  let ?h = "getHeadFrameNumber ops e s1"
  have "allTransactionsSignaled_loop ?h (mLocalSyncPoints s1) False True =
          (mLocalSyncPoints s1, False \<or> (\<exists>p\<in>set (mLocalSyncPoints s1). mFrameNumber p \<le> ?h),
           True \<and> (\<forall>p\<in>set (mLocalSyncPoints s1). mFrameNumber p \<le> ?h \<longrightarrow> mTransactionIsApplied p))"
    using assms(5,6) by (rule loop_all_available)
  moreover have "\<exists>p\<in>set (mLocalSyncPoints s1). mFrameNumber p \<le> ?h" using assms(7) by blast
  moreover have "\<not> (\<forall>p\<in>set (mLocalSyncPoints s1). mFrameNumber p \<le> ?h \<longrightarrow> mTransactionIsApplied p)"
    using assms(7) by blast
  ultimately have "allTransactionsSignaled ops e s1 = (False, s1)"
    by (simp add: allTransactionsSignaled_def)
  with assms(1-4) show ?thesis
    by (simp add: latchBuffer_def)
qed

text \<open>
  At a layer with head frame 3, whose sync points for frames 1 and 2 are available and
  the second not applied.
\<close>

theorem latchBuffer_defers_witness:
  "latchBuffer androidPixelFormats producerHooks False 0 0 scenarioDeferred =
     Inr (False, False,
          scenarioDeferred\<lparr>mFlinger :=
            flinger_setTransactionFlags eTraversalNeeded (mFlinger scenarioDeferred)\<rparr>)"
proof -
  have sb: "latchSidebandStream producerHooks False scenarioDeferred = (False, False, scenarioDeferred)"
    by (simp add: producer_defs scenarioDeferred_def scenario_defs)
  have rd: "hasReadyFrame producerHooks scenarioDeferred"
    by (simp add: hasReadyFrame_def producer_defs scenarioDeferred_def scenario_defs)
  have rp: "\<not> mRefreshPending scenarioDeferred"
    by (simp add: scenarioDeferred_def scenario_defs)
  have fe: "fenceHasSignaled producerHooks scenarioDeferred"
    by (simp add: producer_defs scenarioDeferred_def scenario_defs)
  have hd: "getHeadFrameNumber producerHooks 0 scenarioDeferred = 3"
    by (simp add: getHeadFrameNumber_def producer_defs scenarioDeferred_def scenario_defs)
  have so: "sorted (map mFrameNumber (mLocalSyncPoints scenarioDeferred))"
    by (simp add: scenarioDeferred_def scenario_defs)
  have av: "\<forall>p\<in>set (mLocalSyncPoints scenarioDeferred).
           mFrameNumber p \<le> getHeadFrameNumber producerHooks 0 scenarioDeferred \<longrightarrow> mFrameIsAvailable p"
    by (simp add: hd) (simp add: scenarioDeferred_def scenario_defs)
  have ap: "\<exists>p\<in>set (mLocalSyncPoints scenarioDeferred).
           mFrameNumber p \<le> getHeadFrameNumber producerHooks 0 scenarioDeferred \<and> \<not> mTransactionIsApplied p"
    by (simp add: hd) (simp add: scenarioDeferred_def scenario_defs)
  from latchBuffer_defers [OF sb rd rp fe so av ap] show ?thesis .
qed

section \<open>Notifying available frames (C6)\<close>

text \<open>
  C6: \<open>notifyAvailableFrames\<close> sets \<open>frameAvailable\<close> on exactly the entries with target
  frame number at most the head frame number, when the head fence has signaled and the
  present time is current; the requester of each such entry, when its weak reference
  still resolves, gets \<open>eTransactionNeeded\<close>; the other entries, the other layers and the
  rest of the layer are unchanged.
\<close>

theorem notifyAvailableFrames_marks:
  "notifyAvailableFrames ops e s =
     s\<lparr>mLocalSyncPoints :=
          map (\<lambda>p. if mFrameNumber p \<le> getHeadFrameNumber ops e s \<and> fenceHasSignaled ops s
                        \<and> framePresentTimeIsCurrent ops e s
                    then p\<lparr>mFrameIsAvailable := True\<rparr> else p)
              (mLocalSyncPoints s),
        liveLayers :=
          (\<lambda>l. case liveLayers s l of
                  None \<Rightarrow> None
                | Some flags \<Rightarrow>
                    Some (if \<exists>p\<in>set (mLocalSyncPoints s).
                               mFrameNumber p \<le> getHeadFrameNumber ops e s \<and> fenceHasSignaled ops s
                               \<and> framePresentTimeIsCurrent ops e s \<and> mRequestedSyncLayer p = l
                          then insert eTransactionNeeded flags else flags))\<rparr>"
proof -
  let ?res = "notifyAvailableFrames_loop (getHeadFrameNumber ops e s) (fenceHasSignaled ops s)
     (framePresentTimeIsCurrent ops e s) (mLocalSyncPoints s) (liveLayers s)"
  show ?thesis
    by (simp add: notifyAvailableFrames_def Let_def notify_loop)
qed

text \<open>
  At scenario C: the point for frame 2 is marked, its requester 7 is flagged, and layer
  8, which is not alive, stays unresolved.
\<close>

theorem notifyAvailableFrames_marks_witness:
  "mLocalSyncPoints (notifyAvailableFrames producerHooks 0 scenarioC) = [syncPoint 2 True False 7]
   \<and> liveLayers (notifyAvailableFrames producerHooks 0 scenarioC) 7 = Some {eTransactionNeeded}
   \<and> liveLayers (notifyAvailableFrames producerHooks 0 scenarioC) 8 = None"
proof -
  have hd: "getHeadFrameNumber producerHooks 0 scenarioC = 3"
    by (simp add: getHeadFrameNumber_def producer_defs scenarioC_def scenario_defs)
  have fe: "fenceHasSignaled producerHooks scenarioC"
    by (simp add: producer_defs scenarioC_def scenario_defs)
  have pc: "framePresentTimeIsCurrent producerHooks 0 scenarioC"
    by (simp add: producer_defs scenarioC_def scenario_defs)
  have li: "mLocalSyncPoints scenarioC = [syncPoint 2 False False 7]"
    by (simp add: scenarioC_def scenario_defs)
  have ll: "liveLayers scenarioC = (\<lambda>l. if l = 7 then Some {} else None)"
    by (simp add: scenarioC_def scenario_defs)
  show ?thesis
    by (simp add: notifyAvailableFrames_marks [of producerHooks 0 scenarioC] hd fe pc li ll) (simp add: syncPoint_def)
qed

section \<open>Recomputing the visible regions (C7)\<close>

text \<open>
  C7: after a \<open>latchBuffer\<close> that returned true on the buffer path,
  \<open>recomputeVisibleRegions\<close> is true if the previous buffer was null (the first frame
  ever latched), and it is true if the crop, the transform, the scaling mode, the
  display-inverse flag, the buffer dimensions or the opacity differ from the latched
  state captured before.
\<close>

theorem latchBuffer_recomputeVisibleRegions:
  assumes "latchBuffer pf ops r t e s0 = Inr (True, r', s')"
    and "latchSidebandStream ops r s0 = (False, r1, s1)"
  shows "(mBuffer (mBufferInfo s1) = None \<longrightarrow> r')
       \<and> (mCrop (mBufferInfo s') \<noteq> mCrop (mBufferInfo s1)
          \<or> mTransform (mBufferInfo s') \<noteq> mTransform (mBufferInfo s1)
          \<or> mScaleMode (mBufferInfo s') \<noteq> mScaleMode (mBufferInfo s1)
          \<or> mTransformToDisplayInverse (mBufferInfo s') \<noteq> mTransformToDisplayInverse (mBufferInfo s1)
          \<or> (\<exists>ob nb. mBuffer (mBufferInfo s1) = Some ob \<and> mBuffer (mBufferInfo s') = Some nb
                \<and> (gb_width nb \<noteq> gb_width ob \<or> gb_height nb \<noteq> gb_height ob))
          \<or> isOpaque pf s' (mDrawingState s') \<noteq> isOpaque pf s1 (mDrawingState s1)
          \<longrightarrow> r')"
proof -
  from latchBuffer_success [OF assms] obtain r2 s5 where
    rc: "latchBuffer_recompute r2 (mBufferInfo s1) (isOpaque pf s1 (mDrawingState s1))
                (mBufferInfo (latched_state ops s5))
                (isOpaque pf (latched_state ops s5) (mDrawingState (latched_state ops s5))) = Inr r'" and
    s': "s' = (latched_state ops s5)\<lparr>mLocalSyncPoints :=
                     latchBuffer_dropSyncPoints (mCurrentFrameNumber (latched_state ops s5))
                       (mLocalSyncPoints (latched_state ops s5))\<rparr>"
    by blast
  have b: "mBufferInfo s' = mBufferInfo (latched_state ops s5)"
    and d: "mDrawingState s' = mDrawingState (latched_state ops s5)"
    and o: "isOpaque pf s' = isOpaque pf (latched_state ops s5)"
    by (simp_all add: s' isOpaque_def getPixelFormat_def fun_eq_iff)
  from recompute_Inr [OF rc] show ?thesis
    unfolding b d o by blast
qed

text \<open>Scenario B: the first frame is latched, and the geometry is reported as changed.\<close>

theorem latchBuffer_recomputeVisibleRegions_witness:
  "mBuffer (mBufferInfo scenarioB) = None
   \<and> (\<exists>s'. latchBuffer androidPixelFormats producerHooks False 0 0 scenarioB = Inr (True, True, s')
           \<and> mCurrentFrameNumber s' = 1)"
proof -
  have sb: "latchSidebandStream producerHooks False scenarioB = (False, False, scenarioB)"
    by (simp add: producer_defs scenarioB_def scenario_defs)
  have "\<exists>s'. latchBuffer androidPixelFormats producerHooks False 0 0 scenarioB = Inr (True, True, s')
     \<and> mCurrentFrameNumber s' = 1"
    by (simp add: scenarioB_def scenario_defs producer_defs latch_defs)
  then have "\<exists>r' s'. latchBuffer androidPixelFormats producerHooks False 0 0 scenarioB = Inr (True, r', s')
     \<and> mCurrentFrameNumber s' = 1" by blast
  then obtain r' s' where
    la: "latchBuffer androidPixelFormats producerHooks False 0 0 scenarioB = Inr (True, r', s')"
    and cu: "mCurrentFrameNumber s' = 1" by blast
  have nb: "mBuffer (mBufferInfo scenarioB) = None"
    by (simp add: scenarioB_def scenario_defs)
  from latchBuffer_recomputeVisibleRegions [OF la sb] nb have "r'" by blast
  with la cu nb show ?thesis by auto
qed

section \<open>Rounding to \<open>float\<close>\<close>

text \<open>Rounding to the nearest integer is off by at most one half, and keeps an integer.\<close>

lemma round_half_even_error: "\<bar>of_int (round_half_even q) - q\<bar> \<le> 1 / 2"
proof -
  have "of_int \<lfloor>q\<rfloor> \<le> q" and "q < of_int \<lfloor>q\<rfloor> + 1" by linarith+
  then show ?thesis
    by (simp add: round_half_even_def Let_def abs_le_iff)
qed

lemma round_half_even_of_int [simp]: "round_half_even (of_int k) = k"
  by (simp add: round_half_even_def)

text \<open>The exponent of \<open>x\<close> gives a power of two that is at most \<open>|x|\<close>.\<close>

lemma float_exponent_lower:
  assumes "x \<noteq> 0"
  shows "2 powi float_exponent x \<le> \<bar>x\<bar>"
proof (cases "1 \<le> \<bar>x\<bar>")
  case True
  let ?n = "\<lfloor>\<bar>x\<bar>\<rfloor>"
  from True have n: "1 \<le> ?n" by linarith
  then have b: "2 ^ nat (bitlen ?n - 1) \<le> ?n" using bitlen_bounds [of ?n] by simp
  from n have "1 \<le> bitlen ?n" by (auto simp: bitlen_alt_def)
  then have "(2::rat) powi (bitlen ?n - 1) = 2 ^ nat (bitlen ?n - 1)"
    by (simp add: power_int_def)
  also have "\<dots> = of_int (2 ^ nat (bitlen ?n - 1))" by simp
  also have "\<dots> \<le> of_int ?n" using b by (simp only: of_int_le_iff)
  also have "\<dots> \<le> \<bar>x\<bar>" by linarith
  finally show ?thesis using True by (simp add: float_exponent_def)
next
  case False
  let ?y = "1 / \<bar>x\<bar>"
  let ?N = "\<lceil>?y\<rceil> - 1"
  from False assms have a: "0 < \<bar>x\<bar>" "\<bar>x\<bar> < 1" by simp_all
  then have y: "1 < ?y" by (simp add: field_simps)
  then have N: "1 \<le> ?N" by linarith
  then have b: "?N < 2 ^ nat (bitlen ?N)" using bitlen_bounds [of ?N] by simp
  have "?y \<le> of_int \<lceil>?y\<rceil>" by linarith
  also have "\<dots> \<le> of_int (2 ^ nat (bitlen ?N))" using b by (simp only: of_int_le_iff; linarith)
  finally have "?y \<le> 2 ^ nat (bitlen ?N)" by simp
  with a have "1 / 2 ^ nat (bitlen ?N) \<le> \<bar>x\<bar>"
    by (simp add: field_simps)
  moreover have "(2::rat) powi (- bitlen ?N) = 1 / 2 ^ nat (bitlen ?N)"
    using bitlen_nonneg [of ?N] by (simp add: power_int_def field_simps)
  ultimately show ?thesis using False by (simp add: float_exponent_def)
qed

text \<open>The next power of two is above \<open>|x|\<close>.\<close>

lemma float_exponent_upper:
  assumes "x \<noteq> 0"
  shows "\<bar>x\<bar> < 2 powi (float_exponent x + 1)"
proof (cases "1 \<le> \<bar>x\<bar>")
  case True
  let ?n = "\<lfloor>\<bar>x\<bar>\<rfloor>"
  from True have n: "1 \<le> ?n" by linarith
  then have b: "?n < 2 ^ nat (bitlen ?n)" using bitlen_bounds [of ?n] by simp
  have "\<bar>x\<bar> < of_int (?n + 1)" by linarith
  also have "\<dots> \<le> of_int (2 ^ nat (bitlen ?n))" using b by (simp only: of_int_le_iff; linarith)
  also have "\<dots> = (2::rat) powi bitlen ?n"
    using bitlen_nonneg [of ?n] by (simp add: power_int_def)
  finally show ?thesis using True by (simp add: float_exponent_def)
next
  case False
  let ?y = "1 / \<bar>x\<bar>"
  let ?N = "\<lceil>?y\<rceil> - 1"
  from False assms have a: "0 < \<bar>x\<bar>" "\<bar>x\<bar> < 1" by simp_all
  then have y: "1 < ?y" by (simp add: field_simps)
  then have N: "1 \<le> ?N" by linarith
  then have b: "2 ^ nat (bitlen ?N - 1) \<le> ?N" using bitlen_bounds [of ?N] by simp
  from N have bl: "1 \<le> bitlen ?N" by (auto simp: bitlen_alt_def)
  have "(of_int (2 ^ nat (bitlen ?N - 1)) :: rat) \<le> of_int ?N" using b by (simp only: of_int_le_iff)
  also have "\<dots> < ?y" by linarith
  finally have "(2::rat) ^ nat (bitlen ?N - 1) < 1 / \<bar>x\<bar>" by simp
  with a have "\<bar>x\<bar> < 1 / 2 ^ nat (bitlen ?N - 1)"
    by (simp add: field_simps)
  moreover have "(2::rat) powi (- bitlen ?N + 1) = 1 / 2 ^ nat (bitlen ?N - 1)"
  proof -
    have "- bitlen ?N + 1 = - int (nat (bitlen ?N - 1))" using bl by simp
    then have "(2::rat) powi (- bitlen ?N + 1) = 2 powi (- int (nat (bitlen ?N - 1)))" by simp
    also have "\<dots> = 1 / 2 ^ nat (bitlen ?N - 1)"
      by (simp only: power_int_minus power_int_of_nat inverse_eq_divide)
    finally show ?thesis .
  qed
  ultimately show ?thesis using False by (simp add: float_exponent_def)
qed

text \<open>
  So the significand that \<open>round_float\<close> rounds to has at most 24 bits: in magnitude it
  is at most \<open>2^24\<close>, which the rounding reaches just below the next power of two.
\<close>

lemma round_float_significand:
  assumes "x \<noteq> 0"
  shows "\<bar>round_half_even (x / 2 powi max (float_exponent x - 23) (- 149))\<bar> \<le> 2 ^ 24"
proof -
  define e where "e = max (float_exponent x - 23) (- 149)"
  define r where "r = round_half_even (x / 2 powi e)"
  have pos: "0 < (2::rat) powi e" by simp
  have "(2::rat) powi (float_exponent x - 23) \<le> 2 powi e"
    by (rule power_int_increasing) (simp_all add: e_def)
  moreover have "(2::rat) powi (float_exponent x + 1) = 2 ^ 24 * 2 powi (float_exponent x - 23)"
  proof -
    have "float_exponent x + 1 = 24 + (float_exponent x - 23)" by simp
    then have "(2::rat) powi (float_exponent x + 1) = 2 powi (24 + (float_exponent x - 23))"
      by (simp only:)
    also have "\<dots> = 2 powi 24 * 2 powi (float_exponent x - 23)"
      by (rule power_int_add) simp
    finally show ?thesis by simp
  qed
  ultimately have "(2::rat) powi (float_exponent x + 1) \<le> 2 ^ 24 * 2 powi e" by simp
  with float_exponent_upper [OF assms] have "\<bar>x\<bar> < 2 ^ 24 * 2 powi e" by simp
  with pos have "\<bar>x\<bar> / 2 powi e < 2 ^ 24" by (simp add: field_simps)
  moreover have "\<bar>x / 2 powi e\<bar> = \<bar>x\<bar> / 2 powi e" using pos by simp
  ultimately have q: "\<bar>x / 2 powi e\<bar> < 2 ^ 24" by simp
  have "\<bar>of_int r :: rat\<bar> \<le> \<bar>of_int r - x / 2 powi e\<bar> + \<bar>x / 2 powi e\<bar>"
    using abs_triangle_ineq [of "of_int r - x / 2 powi e" "x / 2 powi e"] by (simp only: diff_add_cancel)
  with round_half_even_error [of "x / 2 powi e"] q
  have "\<bar>of_int r :: rat\<bar> < 2 ^ 24 + 1" unfolding r_def by linarith
  then have "(of_int \<bar>r\<bar> :: rat) < of_int (2 ^ 24 + 1)" by simp
  then have "\<bar>r\<bar> < 2 ^ 24 + 1" by (simp only: of_int_less_iff)
  then show ?thesis unfolding r_def e_def by simp
qed

text \<open>
  Up to \<open>2^64\<close> in magnitude the rounding gives a finite value, within half of
  \<open>max |x| 1\<close> of \<open>x\<close>.
\<close>

lemma round_float_finite:
  assumes "\<bar>x\<bar> \<le> 2 ^ 64"
  shows "\<exists>v. round_float x = Fin v \<and> \<bar>v\<bar> \<le> 2 * max \<bar>x\<bar> 1 \<and> \<bar>v - x\<bar> \<le> max \<bar>x\<bar> 1 / 2"
proof (cases "x = 0")
  case True
  then show ?thesis by (simp add: round_float_def)
next
  case False
  define e where "e = max (float_exponent x - 23) (- 149)"
  define v where "v = of_int (round_half_even (x / 2 powi e)) * (2::rat) powi e"
  have pos: "0 < (2::rat) powi e" by simp
  have "(2::rat) powi (float_exponent x - 23) \<le> 2 powi float_exponent x"
    by (rule power_int_increasing) simp_all
  with float_exponent_lower [OF False] have p1: "(2::rat) powi (float_exponent x - 23) \<le> \<bar>x\<bar>" by simp
  have p2: "(2::rat) powi (- 149) \<le> 1"
    by (simp add: power_int_def power_le_one)
  have pe: "(2::rat) powi e \<le> max \<bar>x\<bar> 1"
  proof (cases "float_exponent x - 23 \<le> - 149")
    case True
    then have "e = - 149" by (simp add: e_def)
    with p2 show ?thesis by (simp only: le_max_iff_disj) simp
  next
    case False
    then have "e = float_exponent x - 23" by (simp add: e_def)
    with p1 show ?thesis by (simp only: le_max_iff_disj) simp
  qed
  have "v - x = (of_int (round_half_even (x / 2 powi e)) - x / 2 powi e) * 2 powi e"
    using pos by (simp add: v_def field_simps)
  then have "\<bar>v - x\<bar> = \<bar>of_int (round_half_even (x / 2 powi e)) - x / 2 powi e\<bar> * 2 powi e"
    using pos by (simp add: abs_mult)
  also have "\<dots> \<le> 1 / 2 * 2 powi e"
    using round_half_even_error [of "x / 2 powi e"] pos by (intro mult_right_mono) simp_all
  finally have err: "\<bar>v - x\<bar> \<le> max \<bar>x\<bar> 1 / 2" using pe by simp
  moreover have "\<bar>v\<bar> \<le> \<bar>v - x\<bar> + \<bar>x\<bar>" by simp
  moreover have "\<bar>x\<bar> \<le> max \<bar>x\<bar> 1" and "0 \<le> max \<bar>x\<bar> 1" by simp_all
  ultimately have bound: "\<bar>v\<bar> \<le> 2 * max \<bar>x\<bar> 1" by linarith
  have "max \<bar>x\<bar> 1 \<le> 2 ^ 64" using assms by simp
  with bound have "\<bar>v\<bar> \<le> 2 * 2 ^ 64" by linarith
  also have "\<dots> < (2::rat) ^ 128" by simp
  finally have "\<not> 2 ^ 128 \<le> \<bar>v\<bar>" by simp
  with False bound err show ?thesis
    by (simp add: round_float_def Let_def e_def [symmetric] v_def [symmetric])
qed

text \<open>An integer below \<open>2^24\<close> in magnitude is a \<open>float\<close>: the rounding keeps it.\<close>

lemma round_float_of_int:
  assumes "\<bar>k\<bar> < 2 ^ 24"
  shows "round_float (of_int k) = Fin (of_int k)"
proof (cases "k = 0")
  case True
  then show ?thesis by (simp add: round_float_def)
next
  case False
  let ?x = "of_int k :: rat"
  define e where "e = max (float_exponent ?x - 23) (- 149)"
  from False have nz: "?x \<noteq> 0" by simp
  have "of_int \<bar>k\<bar> < (of_int (2 ^ 24) :: rat)" using assms by (simp only: of_int_less_iff)
  then have small: "\<bar>?x\<bar> < 2 ^ 24" by simp
  have "2 powi float_exponent ?x \<le> \<bar>?x\<bar>" by (rule float_exponent_lower [OF nz])
  also note small
  finally have "(2::rat) powi float_exponent ?x < 2 powi 24" by simp
  then have "float_exponent ?x < 24" by (rule power_int_le_imp_less_exp [rotated]) simp_all
  then have e0: "e \<le> 0" by (simp add: e_def)
  define n where "n = nat (- e)"
  from e0 have pe: "(2::rat) powi e = 1 / 2 ^ n" by (simp add: power_int_def n_def field_simps)
  have "?x / 2 powi e = of_int (k * 2 ^ n)" by (simp add: pe)
  then have "round_half_even (?x / 2 powi e) = k * 2 ^ n" by (simp only: round_half_even_of_int)
  then have v: "of_int (round_half_even (?x / 2 powi e)) * (2::rat) powi e = ?x" by (simp add: pe)
  have "(2::rat) ^ 24 < 2 ^ 128" by simp
  with small have "\<bar>?x\<bar> < 2 ^ 128" by (rule less_trans)
  then have big: "(2 ^ 128 \<le> \<bar>?x\<bar>) = False" by (simp only: not_le [symmetric] simp_thms)
  have "round_float ?x =
          (if 2 ^ 128 \<le> \<bar>of_int (round_half_even (?x / 2 powi e)) * (2::rat) powi e\<bar>
           then (if 0 < ?x then PInf else NInf)
           else Fin (of_int (round_half_even (?x / 2 powi e)) * 2 powi e))"
    using nz by (simp only: round_float_def Let_def e_def if_False)
  also have "\<dots> = Fin ?x" by (simp only: v big if_False)
  finally show ?thesis .
qed

text \<open>The rounding of an integer is an integer.\<close>

lemma round_float_int:
  assumes "\<bar>of_int k :: rat\<bar> \<le> 2 ^ 64"
  shows "\<exists>m. round_float (of_int k) = Fin (of_int m)"
proof (cases "k = 0")
  case True
  then have "round_float (of_int k) = Fin (of_int 0)" by (simp add: round_float_def)
  then show ?thesis ..
next
  case False
  let ?x = "of_int k :: rat"
  define e where "e = max (float_exponent ?x - 23) (- 149)"
  define r where "r = round_half_even (?x / 2 powi e)"
  from False have nz: "?x \<noteq> 0" by simp
  from round_float_finite [OF assms] obtain v0 where v0: "round_float ?x = Fin v0" by blast
  have unf: "round_float ?x =
          (if 2 ^ 128 \<le> \<bar>of_int r * (2::rat) powi e\<bar>
           then (if 0 < ?x then PInf else NInf)
           else Fin (of_int r * 2 powi e))"
    using nz by (simp only: round_float_def Let_def e_def r_def if_False)
  with v0 have fin: "round_float ?x = Fin (of_int r * 2 powi e)"
    by (simp split: if_splits)
  show ?thesis
  proof (cases "0 \<le> e")
    case True
    then have "(2::rat) powi e = of_int (2 ^ nat e)" by (simp add: power_int_def)
    then have "of_int r * (2::rat) powi e = of_int (r * 2 ^ nat e)" by simp
    with fin have "round_float ?x = Fin (of_int (r * 2 ^ nat e))" by (simp only:)
    then show ?thesis ..
  next
    case False
    define n where "n = nat (- e)"
    from False have pe: "(2::rat) powi e = 1 / 2 ^ n"
      by (simp add: power_int_def n_def field_simps)
    have "?x / 2 powi e = of_int (k * 2 ^ n)" by (simp add: pe)
    then have "r = k * 2 ^ n" by (simp only: r_def round_half_even_of_int)
    then have "of_int r * (2::rat) powi e = ?x" by (simp add: pe)
    with fin have "round_float ?x = Fin (of_int k)" by (simp only:)
    then show ?thesis ..
  qed
qed

text \<open>
  The conversion of an \<open>int32_t\<close> gives an integer of at most \<open>2^32\<close> in magnitude, and
  the \<open>int32_t\<close> itself when that is below \<open>2^24\<close> in magnitude.
\<close>

lemma float_of_int32_finite:
  "\<exists>m. float_of_int32 w = Fin (of_int m) \<and> \<bar>of_int m :: rat\<bar> \<le> 2 ^ 32"
proof -
  have "- (2 ^ 31) \<le> sint w" and "sint w < 2 ^ 31"
    using sint_ge [of w] sint_lt [of w] by simp_all
  then have "\<bar>sint w\<bar> \<le> 2 ^ 31" by simp
  then have "(of_int \<bar>sint w\<bar> :: rat) \<le> of_int (2 ^ 31)" by (simp only: of_int_le_iff)
  then have a: "\<bar>of_int (sint w) :: rat\<bar> \<le> 2 ^ 31" by (simp del: of_int_sint)
  then have b: "\<bar>of_int (sint w) :: rat\<bar> \<le> 2 ^ 64" by simp
  from round_float_finite [OF b] obtain v where
    v: "round_float (of_int (sint w)) = Fin v" "\<bar>v\<bar> \<le> 2 * max \<bar>of_int (sint w) :: rat\<bar> 1" by blast
  from round_float_int [OF b] obtain m where m: "round_float (of_int (sint w)) = Fin (of_int m)"
    by blast
  from a have "max \<bar>of_int (sint w) :: rat\<bar> 1 \<le> 2 ^ 31" by simp
  with v(2) have "\<bar>v\<bar> \<le> 2 ^ 32" by simp
  with v(1) m show ?thesis by (auto simp add: float_of_int32_def simp del: of_int_sint)
qed

lemma float_of_int32_exact:
  assumes "\<bar>sint w\<bar> < 2 ^ 24"
  shows "float_of_int32 w = Fin (of_int (sint w))"
  using round_float_of_int [OF assms] by (simp only: float_of_int32_def)

text \<open>
  Two \<open>int32_t\<close> values that convert to different \<open>float\<close> values have a difference, in
  \<open>float\<close>, that is finite and at least one half in magnitude; a quotient by it is finite,
  and its quotient by itself is 1.
\<close>

lemma fsub_int32_finite:
  assumes "float_of_int32 a \<noteq> float_of_int32 b"
  shows "\<exists>v. fsub (float_of_int32 a) (float_of_int32 b) = Fin v \<and> 1 / 2 \<le> \<bar>v\<bar>"
proof -
  from float_of_int32_finite [of a] obtain m where
    m: "float_of_int32 a = Fin (of_int m)" "\<bar>of_int m :: rat\<bar> \<le> 2 ^ 32" by blast
  from float_of_int32_finite [of b] obtain n where
    n: "float_of_int32 b = Fin (of_int n)" "\<bar>of_int n :: rat\<bar> \<le> 2 ^ 32" by blast
  let ?d = "of_int m - of_int n :: rat"
  from assms m(1) n(1) have "m \<noteq> n" by auto
  then have "1 \<le> \<bar>m - n\<bar>" by simp
  then have "(of_int 1 :: rat) \<le> of_int \<bar>m - n\<bar>" by (simp only: of_int_le_iff)
  then have d1: "1 \<le> \<bar>?d\<bar>" by simp
  from m(2) n(2) have "\<bar>?d\<bar> \<le> 2 ^ 64" by (simp add: abs_le_iff)
  from round_float_finite [OF this] obtain v where
    v: "round_float ?d = Fin v" "\<bar>v - ?d\<bar> \<le> max \<bar>?d\<bar> 1 / 2" by blast
  from d1 have "max \<bar>?d\<bar> 1 = \<bar>?d\<bar>" by simp
  with v(2) have "\<bar>v - ?d\<bar> \<le> \<bar>?d\<bar> / 2" by simp
  moreover have "\<bar>?d\<bar> \<le> \<bar>v - ?d\<bar> + \<bar>v\<bar>" by simp
  ultimately have "1 / 2 \<le> \<bar>v\<bar>" using d1 by (simp add: abs_le_iff abs_if split: if_splits)
  with v(1) m(1) n(1) show ?thesis by simp
qed

lemma round_float_1: "round_float 1 = Fin 1"
  using round_float_of_int [of 1] by simp

lemma fdiv_int32_self:
  assumes "float_of_int32 a \<noteq> float_of_int32 b"
  shows "fdiv (fsub (float_of_int32 a) (float_of_int32 b))
           (fsub (float_of_int32 a) (float_of_int32 b)) = Fin 1"
proof -
  from fsub_int32_finite [OF assms] obtain v where
    v: "fsub (float_of_int32 a) (float_of_int32 b) = Fin v" "1 / 2 \<le> \<bar>v\<bar>" by blast
  from v(2) have "v \<noteq> 0" by auto
  with v(1) show ?thesis by (simp add: round_float_1)
qed

lemma fdiv_int32_finite:
  assumes "float_of_int32 a \<noteq> float_of_int32 b"
  shows "isFinite (fdiv (float_of_int32 c) (fsub (float_of_int32 a) (float_of_int32 b)))"
proof -
  from fsub_int32_finite [OF assms] obtain v where
    v: "fsub (float_of_int32 a) (float_of_int32 b) = Fin v" "1 / 2 \<le> \<bar>v\<bar>" by blast
  from float_of_int32_finite [of c] obtain m where
    m: "float_of_int32 c = Fin (of_int m)" "\<bar>of_int m :: rat\<bar> \<le> 2 ^ 32" by blast
  from v(2) have nz: "v \<noteq> 0" by auto
  have "\<bar>of_int m / v\<bar> = \<bar>of_int m :: rat\<bar> / \<bar>v\<bar>" by simp
  also have "\<dots> \<le> 2 ^ 32 / (1 / 2)"
    using m(2) v(2) by (intro frac_le) simp_all
  also have "\<dots> \<le> 2 ^ 64" by simp
  finally have "\<bar>of_int m / v\<bar> \<le> 2 ^ 64" .
  from round_float_finite [OF this] obtain q where "round_float (of_int m / v) = Fin q" by blast
  with v(1) m(1) nz show ?thesis by (simp add: isFinite_def)
qed

text \<open>The values of the conversion and of the rounding that the scenarios need.\<close>

lemma round_float_0: "round_float 0 = Fin 0"
  by code_simp

lemma float_of_int32_0: "float_of_int32 0 = Fin 0"
  by code_simp

lemma float_of_int32_10: "float_of_int32 10 = Fin 10"
  by code_simp

lemma float_of_int32_20: "float_of_int32 20 = Fin 20"
  by code_simp

lemma float_of_int32_100: "float_of_int32 100 = Fin 100"
  by code_simp

lemma float_of_int32_110: "float_of_int32 110 = Fin 110"
  by code_simp

lemma float_of_int32_220: "float_of_int32 220 = Fin 220"
  by code_simp

lemma float_of_int32_wide: "float_of_int32 16777217 = Fin 16777216"
  by code_simp

lemma round_float_50: "round_float 50 = Fin 50"
  by code_simp

lemma round_float_100: "round_float 100 = Fin 100"
  by code_simp

lemma round_float_200: "round_float 200 = Fin 200"
  by code_simp

lemma round_float_wide: "round_float 16777216 = Fin 16777216"
  by code_simp

lemma round_float_tenth: "round_float (1 / 10) = Fin (13421773 / 134217728)"
  by code_simp

lemmas float_evals =
  round_float_0 float_of_int32_0 float_of_int32_10 float_of_int32_20 float_of_int32_100 float_of_int32_110
  float_of_int32_220 float_of_int32_wide round_float_50 round_float_100 round_float_200
  round_float_wide round_float_tenth

section \<open>Malformed buffer geometry (C8)\<close>

text \<open>
  \<open>Rect(w, h)\<close> is valid, since it clamps both sizes to \<open>INT32_MAX\<close>. So the body of
  \<open>getBufferSize\<close> in this file gives a valid rectangle whenever a buffer is latched: the
  invalid size that lines 229 to 235 provide for comes from an overriding body, as the
  comment at line 229 says of \<open>BufferStateLayer\<close>.
\<close>

lemma clamp_nonneg:
  assumes "\<not> 0x7FFFFFFF < (w::32 word)"
  shows "0 \<le> sint w"
proof -
  from assms have "w \<le> 0x7FFFFFFF" by simp
  then have u: "uint w < 2 ^ 31" by (simp add: word_le_def)
  have "- (2 ^ 31) \<le> uint w" by (rule order_trans [of _ 0]) simp_all
  from this u have "signed_take_bit 31 (uint w) = uint w" by (rule signed_take_bit_int_eq_self)
  then have "sint w = uint w" by (simp add: sint_uint)
  then show ?thesis by simp
qed

lemma Rect_of_size_valid: "Rect_isValid (Rect_of_size w h)"
  by (simp add: Rect_isValid_def Rect_of_size_def Rect_getWidth_def Rect_getHeight_def
        clamp_nonneg)

lemma getBufferSize_valid:
  assumes "mBuffer (mBufferInfo l) \<noteq> None"
  shows "Rect_isValid (getBufferSize pl s l)"
  using assms
  by (auto simp add: getBufferSize_def Rect_of_size_valid Let_def split: option.splits)

text \<open>
  On the black-out branch, lines 250 to 255, no texture transform is written: the
  settings of the base class come back with the buffer cleared and the alpha 1.
\<close>

lemma prepareClientComposition_blackOut:
  assumes "layerPrepareClientComposition env = Some result"
    and "mBuffer (mBufferInfo l) \<noteq> None"
    and "(isProtected pl l \<and> \<not> ts_supportsProtectedContent targetSettings)
         \<or> (isSecure env \<and> \<not> ts_isSecure targetSettings)"
  shows "prepareClientComposition pf pl env targetSettings l =
           (Some (result\<lparr>ls_buffer := None, ls_alpha := Fin 1\<rparr>), targetSettings)"
  using assms by (auto simp: prepareClientComposition_def Let_def)

text \<open>
  C8, as amended. The claim reads: when the buffer geometry is malformed (zero-area or
  inverted crop, invalid buffer size), the projection does not propagate degenerate
  values and returns the previous valid projection unchanged. The code keeps no previous
  projection. \<open>prepareClientComposition\<close> writes the texture transform on one branch
  only, the one where the base class gave settings, a buffer is latched and the layer is
  not blacked out; there it writes it anew from the window and the buffer size. What it
  does for an invalid buffer size, lines 229 to 235, is to take the window's width and
  height in its place. Proved here: on that branch, when \<open>getBufferSize(s)\<close> is not
  valid, and the right and left edge of the window, and its bottom and top edge, are
  different as \<open>float\<close>, the settings returned are those of the base class with the
  buffer, the opacity, the filtering flag and the texture transform written; the
  transform is the texture matrix times the flip, the translation by the window's
  origin over its size (conversions, subtractions and divisions rounded to \<open>float\<close>),
  and the scale by exactly 1 in both directions; and both quotients of the translation
  are finite.
\<close>

theorem prepareClientComposition_invalid_size:
  assumes "layerPrepareClientComposition env = Some result"
    and "mBuffer (mBufferInfo l) \<noteq> None"
    and "\<not> (isProtected pl l \<and> \<not> ts_supportsProtectedContent targetSettings)"
    and "\<not> (isSecure env \<and> \<not> ts_isSecure targetSettings)"
    and "\<not> Rect_isValid (getBufferSize_virtual env (mDrawingState l) l)"
    and "float_of_int32 (r_right (getBounds env)) \<noteq> float_of_int32 (r_left (getBounds env))"
    and "float_of_int32 (r_bottom (getBounds env)) \<noteq> float_of_int32 (r_top (getBounds env))"
  shows "prepareClientComposition pf pl env targetSettings l =
           (Some (result\<lparr>
              ls_buffer := mBuffer (mBufferInfo l),
              ls_isOpaque := isOpaque pf l (mDrawingState l),
              ls_useTextureFiltering :=
                (ts_needsFiltering targetSettings \<or> mNeedsFiltering l \<or> isFixedSize pl l),
              ls_textureTransform :=
                Mul (prepareClientComposition_textureMatrix pl (drawingParentOrientation env)
                       (ts_needsFiltering targetSettings \<or> mNeedsFiltering l \<or> isFixedSize pl l) l)
                  (Mul (Mul (Mul (Mul (Translate (Fin (1 / 2)) (Fin (1 / 2)))
                                      (Scale (Fin 1) (Fin (- 1))))
                                 (Translate (Fin (- (1 / 2))) (Fin (- (1 / 2)))))
                            (Translate
                               (fdiv (float_of_int32 (r_left (getBounds env)))
                                  (fsub (float_of_int32 (r_right (getBounds env)))
                                     (float_of_int32 (r_left (getBounds env)))))
                               (fdiv (float_of_int32 (r_top (getBounds env)))
                                  (fsub (float_of_int32 (r_bottom (getBounds env)))
                                     (float_of_int32 (r_top (getBounds env)))))))
                       (Scale (Fin 1) (Fin 1)))\<rparr>),
            targetSettings)
         \<and> isFinite (fdiv (float_of_int32 (r_left (getBounds env)))
                      (fsub (float_of_int32 (r_right (getBounds env)))
                         (float_of_int32 (r_left (getBounds env)))))
         \<and> isFinite (fdiv (float_of_int32 (r_top (getBounds env)))
                      (fsub (float_of_int32 (r_bottom (getBounds env)))
                         (float_of_int32 (r_top (getBounds env)))))"
proof -
  note sw = fdiv_int32_self [OF assms(6)]
  note sh = fdiv_int32_self [OF assms(7)]
  have "prepareClientComposition_tr (getBounds env) (getBufferSize_virtual env (mDrawingState l) l) =
          Mul (Mul (Mul (Mul (Translate (Fin (1 / 2)) (Fin (1 / 2))) (Scale (Fin 1) (Fin (- 1))))
                        (Translate (Fin (- (1 / 2))) (Fin (- (1 / 2)))))
                   (Translate
                      (fdiv (float_of_int32 (r_left (getBounds env)))
                         (fsub (float_of_int32 (r_right (getBounds env)))
                            (float_of_int32 (r_left (getBounds env)))))
                      (fdiv (float_of_int32 (r_top (getBounds env)))
                         (fsub (float_of_int32 (r_bottom (getBounds env)))
                            (float_of_int32 (r_top (getBounds env)))))))
              (Scale (Fin 1) (Fin 1))"
    using assms(5) by (simp add: prepareClientComposition_tr_def Let_def sw sh)
  with assms(1-4) have "prepareClientComposition pf pl env targetSettings l =
           (Some (result\<lparr>
              ls_buffer := mBuffer (mBufferInfo l),
              ls_isOpaque := isOpaque pf l (mDrawingState l),
              ls_useTextureFiltering :=
                (ts_needsFiltering targetSettings \<or> mNeedsFiltering l \<or> isFixedSize pl l),
              ls_textureTransform :=
                Mul (prepareClientComposition_textureMatrix pl (drawingParentOrientation env)
                       (ts_needsFiltering targetSettings \<or> mNeedsFiltering l \<or> isFixedSize pl l) l)
                  (Mul (Mul (Mul (Mul (Translate (Fin (1 / 2)) (Fin (1 / 2)))
                                      (Scale (Fin 1) (Fin (- 1))))
                                 (Translate (Fin (- (1 / 2))) (Fin (- (1 / 2)))))
                            (Translate
                               (fdiv (float_of_int32 (r_left (getBounds env)))
                                  (fsub (float_of_int32 (r_right (getBounds env)))
                                     (float_of_int32 (r_left (getBounds env)))))
                               (fdiv (float_of_int32 (r_top (getBounds env)))
                                  (fsub (float_of_int32 (r_bottom (getBounds env)))
                                     (float_of_int32 (r_top (getBounds env)))))))
                       (Scale (Fin 1) (Fin 1)))\<rparr>),
            targetSettings)"
    by (simp add: prepareClientComposition_def Let_def)
  with fdiv_int32_finite [OF assms(6)] fdiv_int32_finite [OF assms(7)]
  show ?thesis by (simp only: simp_thms)
qed

text \<open>
  With the invalid buffer size \<open>[0, 0, -1, -1]\<close> and the window 100 by 200 at (10, 20):
  the scale is 1, and both quotients of the translation, \<open>10.0f / 100.0f\<close> and
  \<open>20.0f / 200.0f\<close>, are the \<open>float\<close> nearest to one tenth, 13421773/134217728.
\<close>

theorem prepareClientComposition_invalid_size_witness:
  "prepareClientComposition androidPixelFormats androidPlatform noBufferSize openTarget
     zeroSizeLayer =
     (Some (baseSettings\<lparr>
        ls_buffer := mBuffer (mBufferInfo zeroSizeLayer),
        ls_isOpaque := True,
        ls_useTextureFiltering := True,
        ls_textureTransform :=
          Mul (ComputeTransformMatrix (mBuffer (mBufferInfo zeroSizeLayer))
                 (mCrop (mBufferInfo zeroSizeLayer)) 0 True)
            (Mul (Mul (Mul (Mul (Translate (Fin (1 / 2)) (Fin (1 / 2))) (Scale (Fin 1) (Fin (- 1))))
                           (Translate (Fin (- (1 / 2))) (Fin (- (1 / 2)))))
                      (Translate (Fin (13421773 / 134217728)) (Fin (13421773 / 134217728))))
                 (Scale (Fin 1) (Fin 1)))\<rparr>),
      openTarget)"
proof -
  have h1: "layerPrepareClientComposition noBufferSize = Some baseSettings"
    by (simp add: noBufferSize_def)
  have h2: "mBuffer (mBufferInfo zeroSizeLayer) \<noteq> None"
    by (simp add: zeroSizeLayer_def scenario_defs)
  have h3: "\<not> (isProtected androidPlatform zeroSizeLayer \<and> \<not> ts_supportsProtectedContent openTarget)"
    by (simp add: openTarget_def)
  have h4: "\<not> (isSecure noBufferSize \<and> \<not> ts_isSecure openTarget)"
    by (simp add: openTarget_def)
  have h5: "\<not> Rect_isValid (getBufferSize_virtual noBufferSize (mDrawingState zeroSizeLayer) zeroSizeLayer)"
    by (simp add: noBufferSize_def Rect_isValid_def Rect_getWidth_def INVALID_RECT_def)
  have h6: "float_of_int32 (r_right (getBounds noBufferSize)) \<noteq> float_of_int32 (r_left (getBounds noBufferSize))"
    by (simp add: noBufferSize_def float_evals)
  have h7: "float_of_int32 (r_bottom (getBounds noBufferSize)) \<noteq> float_of_int32 (r_top (getBounds noBufferSize))"
    by (simp add: noBufferSize_def float_evals)
  from prepareClientComposition_invalid_size [OF h1 h2 h3 h4 h5 h6 h7, of androidPixelFormats]
  show ?thesis
    by (simp add: noBufferSize_def float_evals androidPlatform_def zeroSizeLayer_def
          scenario_defs isOpaque_def getPixelFormat_def getOpacityForFormat_def
          HARDWARE_IS_DEVICE_FORMAT_def isFixedSize_def getEffectiveScalingMode_def
          getTransformToDisplayInverse_def getDrawingTransformMatrix_def
          prepareClientComposition_textureMatrix_def)
qed

text \<open>
  C8 as stated fails for a zero-area buffer size, which is valid for \<open>isValid()\<close>: for
  a layer that scales its buffer to the window and has the active size 0 by 0, with a
  window of 100 by 100, the divisions by the width and height 0 give a NaN translation
  and an infinite scale, and they are written into the texture transform, which is not
  the one the settings held before.
\<close>

theorem prepareClientComposition_degenerate:
  "Rect_isValid (getBufferSize androidPlatform (mDrawingState zeroSizeLayer) zeroSizeLayer)
   \<and> Rect_getWidth (getBufferSize androidPlatform (mDrawingState zeroSizeLayer) zeroSizeLayer) = 0
   \<and> Rect_getHeight (getBufferSize androidPlatform (mDrawingState zeroSizeLayer) zeroSizeLayer) = 0
   \<and> prepareClientComposition androidPixelFormats androidPlatform squareWindow openTarget
        zeroSizeLayer =
       (Some (baseSettings\<lparr>
                ls_buffer := mBuffer (mBufferInfo zeroSizeLayer),
                ls_isOpaque := True,
                ls_useTextureFiltering := True,
                ls_textureTransform :=
                  Mul (ComputeTransformMatrix (mBuffer (mBufferInfo zeroSizeLayer))
                         (mCrop (mBufferInfo zeroSizeLayer)) 0 True)
                      (Mul (Mul (Mul (Mul (Translate (Fin (1 / 2)) (Fin (1 / 2)))
                                          (Scale (Fin 1) (Fin (- 1))))
                                     (Translate (Fin (- (1 / 2))) (Fin (- (1 / 2)))))
                                (Translate NaN NaN))
                           (Scale PInf PInf))\<rparr>),
        openTarget)
   \<and> \<not> finiteFactors
          (ls_textureTransform
             (the (fst (prepareClientComposition androidPixelFormats androidPlatform squareWindow
                          openTarget zeroSizeLayer))))
   \<and> ls_textureTransform
        (the (fst (prepareClientComposition androidPixelFormats androidPlatform squareWindow
                     openTarget zeroSizeLayer)))
      \<noteq> ls_textureTransform baseSettings"
  by (simp add: geometry_defs prepareClientComposition_textureMatrix_def float_evals
        androidPlatform_def zeroSizeLayer_def squareWindow_def
        openTarget_def baseSettings_def scenario_defs latch_defs Let_def)

section \<open>Filtering (C9)\<close>

text \<open>
  C9, as amended. The claim reads: for a layer with a known display device and an output
  layer found for it, \<open>needsFiltering\<close> returns true if and only if the width or the
  height of the source crop differs from the width or the height of the display frame.
  The code compares in \<open>float\<close>: the sizes of the crop are differences of \<open>float\<close>
  edges, and the \<open>int32_t\<close> sizes of the frame are converted to \<open>float\<close>, which rounds
  them from \<open>2^24\<close> on. Proved here: when the width and the height of the display frame
  are below \<open>2^24\<close> in magnitude, \<open>needsFiltering\<close> returns true if and only if the width
  of the crop, as \<open>FloatRect::getWidth\<close> gives it, is not the width of the frame, or the
  height of the crop is not the height of the frame; an infinite or NaN size of the crop
  is none of the frame's.
\<close>

theorem needsFiltering_iff:
  assumes "findOutputLayerForDisplay device l = Some compositionState"
    and "\<bar>sint (Rect_getWidth (displayFrame compositionState))\<bar> < 2 ^ 24"
    and "\<bar>sint (Rect_getHeight (displayFrame compositionState))\<bar> < 2 ^ 24"
  shows "needsFiltering findOutputLayerForDisplay (Some device) l =
           (FloatRect_getWidth (sourceCrop compositionState)
              \<noteq> Fin (of_int (sint (Rect_getWidth (displayFrame compositionState))))
            \<or> FloatRect_getHeight (sourceCrop compositionState)
                \<noteq> Fin (of_int (sint (Rect_getHeight (displayFrame compositionState)))))"
  using assms(1)
  by (auto simp add: needsFiltering_def Let_def fneq_def float_of_int32_exact [OF assms(2)]
        float_of_int32_exact [OF assms(3)] simp del: of_int_sint)

text \<open>
  A crop of 50 by 100 and a crop of 100 by 50 shown in a frame of 100 by 100 need
  filtering; a crop of 100 by 100 shown in a frame of 100 by 100 needs none.
\<close>

theorem needsFiltering_iff_witness:
  "needsFiltering scaledOutput (Some 0) zeroSizeLayer
   \<and> needsFiltering shortCropOutput (Some 0) zeroSizeLayer
   \<and> \<not> needsFiltering unitOutput (Some 0) zeroSizeLayer"
proof -
  have a: "scaledOutput 0 zeroSizeLayer =
     Some \<lparr>displayFrame = \<lparr>r_left = 0, r_top = 0, r_right = 100, r_bottom = 100\<rparr>,
           sourceCrop = \<lparr>fr_left = Fin 0, fr_top = Fin 0, fr_right = Fin 50, fr_bottom = Fin 100\<rparr>\<rparr>"
    by (simp add: scaledOutput_def)
  have b: "shortCropOutput 0 zeroSizeLayer =
     Some \<lparr>displayFrame = \<lparr>r_left = 0, r_top = 0, r_right = 100, r_bottom = 100\<rparr>,
           sourceCrop = \<lparr>fr_left = Fin 0, fr_top = Fin 25, fr_right = Fin 100, fr_bottom = Fin 75\<rparr>\<rparr>"
    by (simp add: shortCropOutput_def)
  have c: "unitOutput 0 zeroSizeLayer =
     Some \<lparr>displayFrame = \<lparr>r_left = 0, r_top = 0, r_right = 100, r_bottom = 100\<rparr>,
           sourceCrop = \<lparr>fr_left = Fin 0, fr_top = Fin 0, fr_right = Fin 100, fr_bottom = Fin 100\<rparr>\<rparr>"
    by (simp add: unitOutput_def)
  from needsFiltering_iff [of scaledOutput 0 zeroSizeLayer, OF a]
    needsFiltering_iff [of shortCropOutput 0 zeroSizeLayer, OF b]
    needsFiltering_iff [of unitOutput 0 zeroSizeLayer, OF c]
  show ?thesis
    by (simp add: FloatRect_getWidth_def FloatRect_getHeight_def Rect_getWidth_def
          Rect_getHeight_def float_evals)
qed

text \<open>
  C9 as stated fails for a frame wider than \<open>2^24\<close>: the display frame is 16777217 wide
  and the crop 16777216, both 100 high. The widths differ, but the width of the frame
  converts to the \<open>float\<close> 16777216, and \<open>needsFiltering\<close> returns false.
\<close>

theorem needsFiltering_wide_frame:
  "sint (Rect_getWidth (displayFrame (the (wideOutput 0 zeroSizeLayer)))) = 16777217
   \<and> FloatRect_getWidth (sourceCrop (the (wideOutput 0 zeroSizeLayer))) = Fin 16777216
   \<and> \<not> needsFiltering wideOutput (Some 0) zeroSizeLayer"
  by (simp add: needsFiltering_def wideOutput_def FloatRect_getWidth_def FloatRect_getHeight_def
        Rect_getWidth_def Rect_getHeight_def fneq_def float_evals)

section \<open>Ready frames (C10)\<close>

text \<open>
  C10: \<open>hasReadyFrame()\<close> is true exactly when \<open>hasFrameUpdate()\<close>,
  \<open>getSidebandStreamChanged()\<close> or \<open>getAutoRefresh()\<close> holds. Once the sideband step has
  returned false, \<open>latchBuffer\<close> returns false at its no-op check and has done nothing
  else when none of the three holds; when one of them holds, whichever it is,
  \<open>latchBuffer\<close> does all that follows the check, lines 358 to 455.
\<close>

theorem hasReadyFrame_cases:
  "hasReadyFrame ops s1 =
     (hasFrameUpdate ops s1 \<or> getSidebandStreamChanged ops s1 \<or> getAutoRefresh ops s1)
   \<and> (latchSidebandStream ops r s0 = (False, r1, s1) \<longrightarrow>
        latchBuffer pf ops r t e s0 =
          (if hasFrameUpdate ops s1 \<or> getSidebandStreamChanged ops s1 \<or> getAutoRefresh ops s1
           then latchBuffer_afterReadyCheck pf ops r1 t e s1
           else Inr (False, r1, s1)))"
  by (simp add: latchBuffer_def latchBuffer_afterReadyCheck_def hasReadyFrame_def)

text \<open>
  Four latch attempts. A pending frame whose fence has not signaled (scenario A): the
  attempt reaches the fence check and calls \<open>signalLayerUpdate\<close>. Auto-refresh alone,
  and the sideband flag alone, with a sync point for the current frame that is not
  available: the attempt reaches the sync-point check, marks the point and asks for a
  traversal. None of the three, with the same sync point: the attempt stops at the no-op
  check and the point is not marked.
\<close>

theorem hasReadyFrame_cases_witness:
  "latchBuffer androidPixelFormats producerHooks False 0 0 scenarioA =
     Inr (False, False, scenarioA\<lparr>mFlinger := signalLayerUpdate (mFlinger scenarioA)\<rparr>)
   \<and> latchBuffer androidPixelFormats producerHooks False 0 0 scenarioAutoRefresh =
       Inr (False, False,
            scenarioAutoRefresh\<lparr>
              mLocalSyncPoints := [syncPoint 0 True False 7],
              mFlinger := flinger_setTransactionFlags eTraversalNeeded
                            (mFlinger scenarioAutoRefresh)\<rparr>)
   \<and> latchBuffer androidPixelFormats lateSidebandHooks False 0 0 scenarioLateSideband =
       Inr (False, False,
            scenarioLateSideband\<lparr>
              mLocalSyncPoints := [syncPoint 0 True False 7],
              mFlinger := flinger_setTransactionFlags eTraversalNeeded
                            (mFlinger scenarioLateSideband)\<rparr>)
   \<and> latchBuffer androidPixelFormats producerHooks False 0 0
         (newLayer\<lparr>mLocalSyncPoints := [syncPoint 0 False False 7]\<rparr>) =
       Inr (False, False, newLayer\<lparr>mLocalSyncPoints := [syncPoint 0 False False 7]\<rparr>)"
proof -
  note after_defs =
    latchBuffer_afterReadyCheck_def allTransactionsSignaled_def getHeadFrameNumber_def
    getFrameNumber_sp_def frameIsAvailable_def transactionIsApplied_def setFrameAvailable_def
    signalLayerUpdate_def flinger_setTransactionFlags_def setTransactionFlags_def
  have a: "latchSidebandStream producerHooks False scenarioA = (False, False, scenarioA)"
    by (simp add: producer_defs scenarioA_def scenario_defs)
  have b: "latchSidebandStream producerHooks False scenarioAutoRefresh =
             (False, False, scenarioAutoRefresh)"
    by (simp add: producer_defs scenarioAutoRefresh_def scenario_defs)
  have c: "latchSidebandStream lateSidebandHooks False scenarioLateSideband =
             (False, False, scenarioLateSideband)"
    by (simp add: lateSidebandHooks_def)
  have d: "latchSidebandStream producerHooks False
             (newLayer\<lparr>mLocalSyncPoints := [syncPoint 0 False False 7]\<rparr>) =
             (False, False, newLayer\<lparr>mLocalSyncPoints := [syncPoint 0 False False 7]\<rparr>)"
    by (simp add: producer_defs scenario_defs)
  from hasReadyFrame_cases [of producerHooks scenarioA False scenarioA False androidPixelFormats 0 0] a
  have 1: "latchBuffer androidPixelFormats producerHooks False 0 0 scenarioA =
     Inr (False, False, scenarioA\<lparr>mFlinger := signalLayerUpdate (mFlinger scenarioA)\<rparr>)"
    by (simp add: after_defs producer_defs scenarioA_def scenario_defs)
  from hasReadyFrame_cases [of producerHooks scenarioAutoRefresh False scenarioAutoRefresh False
              androidPixelFormats 0 0] b
  have 2: "latchBuffer androidPixelFormats producerHooks False 0 0 scenarioAutoRefresh =
       Inr (False, False,
            scenarioAutoRefresh\<lparr>
              mLocalSyncPoints := [syncPoint 0 True False 7],
              mFlinger := flinger_setTransactionFlags eTraversalNeeded
                            (mFlinger scenarioAutoRefresh)\<rparr>)"
    by (simp add: after_defs producer_defs scenarioAutoRefresh_def scenario_defs)
  from hasReadyFrame_cases [of lateSidebandHooks scenarioLateSideband False scenarioLateSideband False
              androidPixelFormats 0 0] c
  have 3: "latchBuffer androidPixelFormats lateSidebandHooks False 0 0 scenarioLateSideband =
       Inr (False, False,
            scenarioLateSideband\<lparr>
              mLocalSyncPoints := [syncPoint 0 True False 7],
              mFlinger := flinger_setTransactionFlags eTraversalNeeded
                            (mFlinger scenarioLateSideband)\<rparr>)"
    by (simp add: after_defs lateSidebandHooks_def producer_defs scenarioLateSideband_def
          scenario_defs)
  from hasReadyFrame_cases [of producerHooks "newLayer\<lparr>mLocalSyncPoints := [syncPoint 0 False False 7]\<rparr>" False
              "newLayer\<lparr>mLocalSyncPoints := [syncPoint 0 False False 7]\<rparr>" False
              androidPixelFormats 0 0] d
  have 4: "latchBuffer androidPixelFormats producerHooks False 0 0
         (newLayer\<lparr>mLocalSyncPoints := [syncPoint 0 False False 7]\<rparr>) =
       Inr (False, False, newLayer\<lparr>mLocalSyncPoints := [syncPoint 0 False False 7]\<rparr>)"
    by (simp add: after_defs producer_defs scenario_defs)
  from 1 2 3 4 show ?thesis by (simp only: simp_thms)
qed

end
